theory Spec2Isabelle
  imports Complex_Main
begin

unbundle bit_operations_syntax

section \<open>IEEE values\<close>

text \<open>
  The plugin computes on IEEE \<open>float\<close> (binary32) and, in a few places, \<open>double\<close>
  values. The model keeps their range and their special values and drops their rounding:
  a value is a real number, an infinity or NaN, and an operation on finite values gives
  the exact real result, or the infinity of its sign when the result's magnitude reaches
  the bound from which the format rounds to infinity. Signed zeros are not represented:
  the zero of the model is the positive zero.

  The parameters of a band and the sample rate are finite numbers and stay
  \<^typ>\<open>real\<close>; they enter the arithmetic through \<open>float_of\<close>.
\<close>

datatype float = Fin real | PInf | NInf | NaN

definition floatBound :: real where
  "floatBound = (2 - 1 / 2 ^ 24) * 2 ^ 127"


definition inRange :: "real \<Rightarrow> real \<Rightarrow> float" where
  "inRange bound x = (if \<bar>x\<bar> < bound then Fin x else if 0 < x then PInf else NInf)"

definition float_of :: "real \<Rightarrow> float" where
  "float_of x = inRange floatBound x"

fun fneg :: "float \<Rightarrow> float" where
  "fneg (Fin a) = Fin (- a)"
| "fneg PInf = NInf"
| "fneg NInf = PInf"
| "fneg NaN = NaN"

fun fabs :: "float \<Rightarrow> float" where
  "fabs (Fin a) = Fin \<bar>a\<bar>"
| "fabs PInf = PInf"
| "fabs NInf = PInf"
| "fabs NaN = NaN"

text \<open>The comparison \<open>x < y\<close>; it is false as soon as one side is NaN.\<close>

fun flt :: "float \<Rightarrow> float \<Rightarrow> bool" where
  "flt (Fin a) (Fin b) = (a < b)"
| "flt (Fin a) PInf = True"
| "flt NInf (Fin b) = True"
| "flt NInf PInf = True"
| "flt x y = False"

text \<open>The comparison \<open>x <= y\<close>.\<close>

fun fle :: "float \<Rightarrow> float \<Rightarrow> bool" where
  "fle (Fin a) (Fin b) = (a \<le> b)"
| "fle NaN y = False"
| "fle x NaN = False"
| "fle NInf y = True"
| "fle x PInf = True"
| "fle x y = False"

fun ieee_add :: "real \<Rightarrow> float \<Rightarrow> float \<Rightarrow> float" where
  "ieee_add B (Fin a) (Fin b) = inRange B (a + b)"
| "ieee_add B (Fin a) y = y"
| "ieee_add B x (Fin b) = x"
| "ieee_add B PInf PInf = PInf"
| "ieee_add B NInf NInf = NInf"
| "ieee_add B x y = NaN"

fun ieee_mul :: "real \<Rightarrow> float \<Rightarrow> float \<Rightarrow> float" where
  "ieee_mul B (Fin a) (Fin b) = inRange B (a * b)"
| "ieee_mul B NaN y = NaN"
| "ieee_mul B x NaN = NaN"
| "ieee_mul B (Fin a) y = (if a = 0 then NaN else if 0 < a then y else fneg y)"
| "ieee_mul B x (Fin b) = (if b = 0 then NaN else if 0 < b then x else fneg x)"
| "ieee_mul B PInf y = y"
| "ieee_mul B NInf y = fneg y"

fun ieee_div :: "real \<Rightarrow> float \<Rightarrow> float \<Rightarrow> float" where
  "ieee_div B (Fin a) (Fin b) =
     (if b = 0 then (if a = 0 then NaN else if 0 < a then PInf else NInf)
      else inRange B (a / b))"
| "ieee_div B NaN y = NaN"
| "ieee_div B x NaN = NaN"
| "ieee_div B (Fin a) y = Fin 0"
| "ieee_div B x (Fin b) = (if 0 \<le> b then x else fneg x)"
| "ieee_div B x y = NaN"

text \<open>The binary32 operations, and the one binary64 operation the repository uses.\<close>

definition fadd :: "float \<Rightarrow> float \<Rightarrow> float" where
  "fadd x y = ieee_add floatBound x y"

definition fsub :: "float \<Rightarrow> float \<Rightarrow> float" where
  "fsub x y = ieee_add floatBound x (fneg y)"

definition fmul :: "float \<Rightarrow> float \<Rightarrow> float" where
  "fmul x y = ieee_mul floatBound x y"

definition fdiv :: "float \<Rightarrow> float \<Rightarrow> float" where
  "fdiv x y = ieee_div floatBound x y"



text \<open>\<open>std::max (a, b)\<close> is \<open>(a < b) ? b : a\<close>.\<close>

definition fmax :: "float \<Rightarrow> float \<Rightarrow> float" where
  "fmax a b = (if flt a b then b else a)"

text \<open>\<open>std::sin\<close> and \<open>std::cos\<close>: NaN for an infinite or NaN argument.\<close>

fun fsin :: "float \<Rightarrow> float" where
  "fsin (Fin a) = Fin (sin a)"
| "fsin x = NaN"

fun fcos :: "float \<Rightarrow> float" where
  "fcos (Fin a) = Fin (cos a)"
| "fcos x = NaN"

definition isFinite :: "float \<Rightarrow> bool" where
  "isFinite x = (case x of Fin a \<Rightarrow> True | _ \<Rightarrow> False)"

section \<open>Faults, buffers and the signal-processing library\<close>

text \<open>
  Two things end a run of the model with a fault instead of a value. A division by a
  parameter that is zero where the data model excludes it (\<open>ratio\<close>, the attack and
  release times) is \<open>Inl DivisionByZero\<close>. An access past the end of a fixed-size array
  is \<open>Inl IndexOutOfRange\<close>.
\<close>

datatype Fault = DivisionByZero | IndexOutOfRange

text \<open>\<open>juce::AudioBuffer<float>\<close>: a number of frames and one sample list per channel.\<close>

record AudioBuffer =
  numSamples :: nat
  channels :: "float list list"

definition getNumChannels :: "AudioBuffer \<Rightarrow> nat" where
  "getNumChannels b = length (channels b)"

text \<open>
  \<open>juce::dsp::IIR::Coefficients<float>\<close>: the six values \<open>(b0, b1, b2, a0, a1, a2)\<close>
  that its constructor is called with. What the library stores of them (it normalises
  by \<open>a0\<close>) is the library's matter.
\<close>

datatype Coefficients = Coefficients float float float float float float

record ProcessSpec =
  spec_sampleRate :: real
  maximumBlockSize :: nat
  spec_numChannels :: nat

text \<open>
  The JUCE library is not part of the repository. Its functions that the plugin calls are
  parameters of the model, collected in one record; \<open>'m\<close> is the per-channel delay
  memory of a \<open>ProcessorDuplicator<IIR::Filter, IIR::Coefficients>\<close>. Every theorem
  below holds for all values of this record. The coefficient makers take the sample
  rate, the frequency, Q and, for the first three, the linear gain factor.
\<close>

record 'm Juce =
  gainToDecibels :: "float \<Rightarrow> float \<Rightarrow> float"
  decibelsToGain :: "float \<Rightarrow> float \<Rightarrow> float"
  makeLowShelf :: "real \<Rightarrow> real \<Rightarrow> real \<Rightarrow> float \<Rightarrow> Coefficients"
  makePeakFilter :: "real \<Rightarrow> real \<Rightarrow> real \<Rightarrow> float \<Rightarrow> Coefficients"
  makeHighShelf :: "real \<Rightarrow> real \<Rightarrow> real \<Rightarrow> float \<Rightarrow> Coefficients"
  makeHighPass :: "real \<Rightarrow> real \<Rightarrow> real \<Rightarrow> Coefficients"
  makeLowPass :: "real \<Rightarrow> real \<Rightarrow> real \<Rightarrow> Coefficients"
  makeBandPass :: "real \<Rightarrow> real \<Rightarrow> real \<Rightarrow> Coefficients"
  defaultCoefficients :: Coefficients
  emptyMemory :: "'m"
  filterPrepare :: "ProcessSpec \<Rightarrow> 'm \<Rightarrow> 'm"
  filterProcess :: "Coefficients \<Rightarrow> 'm \<Rightarrow> AudioBuffer \<Rightarrow> 'm \<times> AudioBuffer"
  getMagnitudeForFrequencyArray :: "Coefficients \<Rightarrow> real list \<Rightarrow> real \<Rightarrow> float list"

text \<open>\<open>juce::Decibels::defaultMinusInfinitydB\<close>, the default second argument.\<close>

definition defaultMinusInfinitydB :: float where
  "defaultMinusInfinitydB = Fin (- 100)"

section \<open>DynamicEQBand.h\<close>

subsection \<open>BandParams\<close>

text \<open>
  \<open>enum class FilterType\<close> has \<open>int\<close> as its underlying type, and
  \<open>updateBandParams\<close> casts an integer to it; \<open>OtherType i\<close> is the value of such a
  cast that names none of the seven enumerators.
\<close>

datatype FilterType =
  LowShelf | Peak | HighShelf | LowCut | HighCut | Notch | BandPass | OtherType int

record BandParams =
  frequency :: real
  gain :: real
  q :: real
  threshold :: real
  ratio :: real
  attackMs :: real
  releaseMs :: real
  enabled :: bool
  dynamicOn :: bool
  ftype :: FilterType

text \<open>The default member initialisers of \<open>struct BandParams\<close>.\<close>

definition defaultBandParams :: BandParams where
  "defaultBandParams =
     \<lparr>frequency = 1000, gain = 0, q = 1, threshold = -20, ratio = 4,
      attackMs = 10, releaseMs = 100, enabled = True, dynamicOn = True, ftype = Peak\<rparr>"

subsection \<open>EnvelopeFollower\<close>

record EnvelopeFollower =
  ef_sampleRate :: real
  attackCoeff :: real
  releaseCoeff :: real
  envelope :: float

definition newEnvelopeFollower :: EnvelopeFollower where
  "newEnvelopeFollower =
     \<lparr>ef_sampleRate = 44100, attackCoeff = 0, releaseCoeff = 0, envelope = Fin 0\<rparr>"

definition EnvelopeFollower_prepare :: "EnvelopeFollower \<Rightarrow> real \<Rightarrow> EnvelopeFollower" where
  "EnvelopeFollower_prepare ef newSampleRate =
     ef\<lparr>ef_sampleRate := newSampleRate, envelope := Fin 0\<rparr>"

text \<open>
  \<open>setAttackRelease\<close> divides by \<open>sampleRate * timeMs * 0.001\<close>. The data model
  has attack and release times above zero; with a zero divisor the model reports the
  division.
\<close>

definition setAttackRelease ::
  "EnvelopeFollower \<Rightarrow> real \<Rightarrow> real \<Rightarrow> Fault + EnvelopeFollower" where
  "setAttackRelease ef attack release =
     (if ef_sampleRate ef \<le> 0 then Inr ef
      else if ef_sampleRate ef * attack * 0.001 = 0 \<or> ef_sampleRate ef * release * 0.001 = 0
        then Inl DivisionByZero
      else Inr (ef\<lparr>attackCoeff := exp (- 1 / (ef_sampleRate ef * attack * 0.001)),
                   releaseCoeff := exp (- 1 / (ef_sampleRate ef * release * 0.001))\<rparr>))"

definition EnvelopeFollower_process ::
  "EnvelopeFollower \<Rightarrow> float \<Rightarrow> float \<times> EnvelopeFollower" where
  "EnvelopeFollower_process ef inputLevel =
     (let coeff = float_of (if flt (envelope ef) inputLevel then attackCoeff ef
                            else releaseCoeff ef);
          e = fadd (fmul coeff (envelope ef)) (fmul (fsub (Fin 1) coeff) inputLevel)
      in (e, ef\<lparr>envelope := e\<rparr>))"

subsection \<open>DynamicEQBand\<close>

text \<open>
  \<open>filters\<close> is an array of one \<open>ProcessorDuplicator\<close>: its shared coefficient
  object is \<open>filterState\<close>, the delay memory of its per-channel filters is
  \<open>filterMem\<close>. The sidechain filter has the same two parts.
\<close>

record 'm DynamicEQBand =
  params :: BandParams
  sampleRate :: real
  envelopeFollower :: EnvelopeFollower
  filterState :: Coefficients
  filterMem :: "'m"
  sidechainState :: Coefficients
  sidechainMem :: "'m"
  gainReductionDB :: float

definition newDynamicEQBand :: "'m Juce \<Rightarrow> 'm DynamicEQBand" where
  "newDynamicEQBand J =
     \<lparr>params = defaultBandParams, sampleRate = 44100,
      envelopeFollower = newEnvelopeFollower,
      filterState = defaultCoefficients J, filterMem = emptyMemory J,
      sidechainState = defaultCoefficients J, sidechainMem = emptyMemory J,
      gainReductionDB = Fin 0\<rparr>"

definition prepare :: "'m Juce \<Rightarrow> 'm DynamicEQBand \<Rightarrow> ProcessSpec \<Rightarrow> 'm DynamicEQBand" where
  "prepare J s spec =
     s\<lparr>sampleRate := spec_sampleRate spec,
       envelopeFollower := EnvelopeFollower_prepare (envelopeFollower s) (spec_sampleRate spec),
       filterMem := filterPrepare J spec (filterMem s),
       sidechainMem := filterPrepare J spec (sidechainMem s),
       gainReductionDB := Fin 0\<rparr>"

text \<open>
  The \<open>Notch\<close> case of \<open>updateFilterCoefficients\<close>, the only one the repository
  computes itself: \<open>w0 = twoPi * frequency / float (sampleRate)\<close>,
  \<open>alpha = sin (w0) / (2 * q)\<close>, and the six values handed to the constructor. Nothing
  is checked on the way: with \<open>q = 0\<close> the quotient is an infinity (or NaN when the sine
  is 0), with a tiny \<open>q\<close> it overflows, and a frequency large enough makes \<open>w0\<close>
  infinite and its sine and cosine NaN.
\<close>

definition notchCoefficients :: "real \<Rightarrow> real \<Rightarrow> real \<Rightarrow> Coefficients" where
  "notchCoefficients sr f qv =
     (let w0 = fdiv (fmul (Fin (2 * pi)) (float_of f)) (float_of sr);
          cosW0 = fcos w0;
          alpha = fdiv (fsin w0) (fmul (Fin 2) (float_of qv))
      in Coefficients (Fin 1) (fmul (Fin (- 2)) cosW0) (Fin 1)
           (fadd (Fin 1) alpha) (fmul (Fin (- 2)) cosW0) (fsub (Fin 1) alpha))"

definition updateFilterCoefficients ::
  "'m Juce \<Rightarrow> 'm DynamicEQBand \<Rightarrow> float \<Rightarrow> 'm DynamicEQBand" where
  "updateFilterCoefficients J s gainDB =
     (if sampleRate s \<le> 0 then s
      else
        (let p = params s; sr = sampleRate s;
             g = decibelsToGain J gainDB defaultMinusInfinitydB
         in case ftype p of
              LowShelf \<Rightarrow> s\<lparr>filterState := makeLowShelf J sr (frequency p) (q p) g\<rparr>
            | Peak \<Rightarrow> s\<lparr>filterState := makePeakFilter J sr (frequency p) (q p) g\<rparr>
            | HighShelf \<Rightarrow> s\<lparr>filterState := makeHighShelf J sr (frequency p) (q p) g\<rparr>
            | LowCut \<Rightarrow> s\<lparr>filterState := makeHighPass J sr (frequency p) (q p)\<rparr>
            | HighCut \<Rightarrow> s\<lparr>filterState := makeLowPass J sr (frequency p) (q p)\<rparr>
            | Notch \<Rightarrow> s\<lparr>filterState := notchCoefficients sr (frequency p) (q p)\<rparr>
            | BandPass \<Rightarrow> s\<lparr>filterState := makeBandPass J sr (frequency p) (q p)\<rparr>
            | OtherType _ \<Rightarrow> s))"

definition updateSidechainFilter :: "'m Juce \<Rightarrow> 'm DynamicEQBand \<Rightarrow> 'm DynamicEQBand" where
  "updateSidechainFilter J s =
     (if sampleRate s \<le> 0 then s
      else s\<lparr>sidechainState :=
               makeBandPass J (sampleRate s) (frequency (params s)) (q (params s))\<rparr>)"

definition updateParams ::
  "'m Juce \<Rightarrow> 'm DynamicEQBand \<Rightarrow> BandParams \<Rightarrow> Fault + 'm DynamicEQBand" where
  "updateParams J s p =
     (case setAttackRelease (envelopeFollower s) (attackMs p) (releaseMs p) of
        Inl e \<Rightarrow> Inl e
      | Inr ef \<Rightarrow>
          Inr (updateSidechainFilter J
                 (updateFilterCoefficients J
                    (s\<lparr>params := p, envelopeFollower := ef\<rparr>) (float_of (gain p)))))"

text \<open>The two nested loops of \<open>process\<close> that find the largest absolute sample.\<close>

definition peakLevel :: "AudioBuffer \<Rightarrow> float" where
  "peakLevel buffer =
     foldl (\<lambda>pk data. foldl (\<lambda>pk x. fmax pk (fabs x)) pk (take (numSamples buffer) data))
       (Fin 0) (channels buffer)"

text \<open>
  The level detector of \<open>process\<close>: peak to dB, through the envelope follower in the
  linear domain, back to dB. Returns \<open>envDB\<close> and the follower's new state.
\<close>

definition detectEnvelope ::
  "'m Juce \<Rightarrow> 'm DynamicEQBand \<Rightarrow> AudioBuffer \<Rightarrow> float \<times> EnvelopeFollower" where
  "detectEnvelope J s buffer =
     (let levelDB = gainToDecibels J (peakLevel buffer) (Fin (- 100));
          (env, ef) = EnvelopeFollower_process (envelopeFollower s)
                        (decibelsToGain J levelDB (Fin (- 100)))
      in (gainToDecibels J env (Fin (- 100)), ef))"

text \<open>
  The gain-reduction law of \<open>process\<close>, on the detected envelope, the threshold and
  the ratio. The envelope may be infinite or NaN; an infinite one gives
  \<open>\<infinity> - \<infinity>\<close>, which is NaN. A \<open>ratio\<close> of zero is a fault.
\<close>

definition computeReduction :: "float \<Rightarrow> real \<Rightarrow> real \<Rightarrow> Fault + float" where
  "computeReduction envDB thr r =
     (if flt (float_of thr) envDB
      then (let excess = fsub envDB (float_of thr)
            in if r = 0 then Inl DivisionByZero
               else Inr (fsub excess (fdiv excess (float_of r))))
      else Inr (Fin 0))"

definition process ::
  "'m Juce \<Rightarrow> 'm DynamicEQBand \<Rightarrow> AudioBuffer \<Rightarrow> Fault + ('m DynamicEQBand \<times> AudioBuffer)" where
  "process J s buffer =
     (if \<not> enabled (params s) then Inr (s\<lparr>gainReductionDB := Fin 0\<rparr>, buffer)
      else if \<not> dynamicOn (params s) then
        (let (m, out) = filterProcess J (filterState s) (filterMem s) buffer
         in Inr (s\<lparr>filterMem := m, gainReductionDB := Fin 0\<rparr>, out))
      else
        (let (envDB, ef) = detectEnvelope J s buffer
         in case computeReduction envDB (threshold (params s)) (ratio (params s)) of
              Inl e \<Rightarrow> Inl e
            | Inr reductionDB \<Rightarrow>
                (let s1 = s\<lparr>envelopeFollower := ef, gainReductionDB := reductionDB\<rparr>;
                     dynamicGain = fsub (float_of (gain (params s1))) reductionDB;
                     s2 = updateFilterCoefficients J s1 dynamicGain;
                     (m, out) = filterProcess J (filterState s2) (filterMem s2) buffer
                 in Inr (s2\<lparr>filterMem := m\<rparr>, out))))"

definition getGainReductionDB :: "'m DynamicEQBand \<Rightarrow> float" where
  "getGainReductionDB s = gainReductionDB s"

text \<open>
  Two predicates in the specification's words. A coefficient set is finite when none
  of its six values is an infinity or NaN. It is neutral (pass-through) when, moreover,
  the transfer function \<open>(b0 + b1 z\<inverse> + b2 z\<inverse>\<^sup>2) / (a0 + a1 z\<inverse> + a2 z\<inverse>\<^sup>2)\<close> is 1,
  that is, numerator and denominator agree.
\<close>

fun finiteCoefficients :: "Coefficients \<Rightarrow> bool" where
  "finiteCoefficients (Coefficients b0 b1 b2 a0 a1 a2) =
     (isFinite b0 \<and> isFinite b1 \<and> isFinite b2 \<and> isFinite a0 \<and> isFinite a1 \<and> isFinite a2)"

fun isPassThrough :: "Coefficients \<Rightarrow> bool" where
  "isPassThrough (Coefficients b0 b1 b2 a0 a1 a2) =
     (finiteCoefficients (Coefficients b0 b1 b2 a0 a1 a2) \<and>
      a0 \<noteq> Fin 0 \<and> b0 = a0 \<and> b1 = a1 \<and> b2 = a2)"

section \<open>SpectrumAnalyzer\<close>

text \<open>
  The analyzer's sizes are compile-time constants: \<open>fftOrder = 12\<close>,
  \<open>fftSize = 1 << fftOrder\<close> and \<open>hopSize = 512\<close>. The model takes them as a
  configuration, so that it can also be run with a small window; \<open>analyzerConfig\<close> is
  the one the plugin is built with. The write cursor and the hop counter are \<open>int\<close>s
  that never leave \<open>[0, fftSize)\<close> and \<open>[0, hopSize)\<close>; they are natural numbers
  here.
\<close>

record AnalyzerConfig =
  fftOrder :: nat
  hopSize :: nat

definition fftSize :: "AnalyzerConfig \<Rightarrow> nat" where
  "fftSize cfg = push_bit (fftOrder cfg) 1"

definition analyzerConfig :: AnalyzerConfig where
  "analyzerConfig = \<lparr>fftOrder = 12, hopSize = 512\<rparr>"

record SpectrumAnalyzer =
  circularBuffer :: "float list"
  fftData :: "float list"
  renderBuffer :: "float list"
  writePos :: nat
  hopCounter :: nat
  newFFTDataAvailable :: bool

text \<open>The constructor: all three arrays filled with zeros.\<close>

definition newSpectrumAnalyzer :: "AnalyzerConfig \<Rightarrow> SpectrumAnalyzer" where
  "newSpectrumAnalyzer cfg =
     \<lparr>circularBuffer = replicate (fftSize cfg) (Fin 0),
      fftData = replicate (fftSize cfg * 2) (Fin 0),
      renderBuffer = replicate (fftSize cfg * 2) (Fin 0),
      writePos = 0, hopCounter = 0, newFFTDataAvailable = False\<rparr>"

text \<open>
  The inner loop of \<open>pushSamples\<close>: copy \<open>fftSize\<close> samples, starting at the write
  cursor and wrapping by the bit mask, to the front of \<open>fftData\<close>.
\<close>

definition captureWindow :: "AnalyzerConfig \<Rightarrow> float list \<Rightarrow> nat \<Rightarrow> float list \<Rightarrow> float list" where
  "captureWindow cfg cb wp fd =
     foldl (\<lambda>fd j. fd[j := cb ! ((wp + j) AND (fftSize cfg - 1))]) fd [0..<fftSize cfg]"

text \<open>The body of the outer loop: one sample.\<close>

definition pushSample :: "AnalyzerConfig \<Rightarrow> SpectrumAnalyzer \<Rightarrow> float \<Rightarrow> SpectrumAnalyzer" where
  "pushSample cfg sa x =
     (let cb = (circularBuffer sa)[writePos sa := x];
          wp = (writePos sa + 1) AND (fftSize cfg - 1);
          hc = hopCounter sa + 1
      in if hc \<ge> hopSize cfg
         then sa\<lparr>circularBuffer := cb, writePos := wp, hopCounter := 0,
                 fftData := captureWindow cfg cb wp (fftData sa),
                 newFFTDataAvailable := True\<rparr>
         else sa\<lparr>circularBuffer := cb, writePos := wp, hopCounter := hc\<rparr>)"

definition pushSamples ::
  "AnalyzerConfig \<Rightarrow> SpectrumAnalyzer \<Rightarrow> float list \<Rightarrow> nat \<Rightarrow> SpectrumAnalyzer" where
  "pushSamples cfg sa data n = foldl (pushSample cfg) sa (take n data)"

definition isNewDataAvailable :: "SpectrumAnalyzer \<Rightarrow> bool" where
  "isNewDataAvailable sa = newFFTDataAvailable sa"

text \<open>
  What the consumer would copy at its next \<open>processFFT\<close>: the first \<open>fftSize\<close> entries
  of the one snapshot buffer if the flag is set, nothing otherwise.
\<close>

definition pendingSnapshot :: "AnalyzerConfig \<Rightarrow> SpectrumAnalyzer \<Rightarrow> float list option" where
  "pendingSnapshot cfg sa =
     (if newFFTDataAvailable sa then Some (take (fftSize cfg) (fftData sa)) else None)"

text \<open>
  The ring read from its oldest slot, which is the write cursor, to its newest: the
  \<open>fftSize\<close> most recent samples in the order they arrived.
\<close>

definition ringContents :: "AnalyzerConfig \<Rightarrow> SpectrumAnalyzer \<Rightarrow> float list" where
  "ringContents cfg sa =
     map (\<lambda>j. circularBuffer sa ! ((writePos sa + j) AND (fftSize cfg - 1))) [0..<fftSize cfg]"

text \<open>The analyzer's representation invariant: array sizes and cursor ranges.\<close>

definition analyzerOk :: "AnalyzerConfig \<Rightarrow> SpectrumAnalyzer \<Rightarrow> bool" where
  "analyzerOk cfg sa \<longleftrightarrow>
     length (circularBuffer sa) = fftSize cfg \<and> length (fftData sa) = fftSize cfg * 2 \<and>
     writePos sa < fftSize cfg \<and> hopCounter sa < hopSize cfg"

section \<open>PluginProcessor\<close>

text \<open>\<open>numBands\<close> is the capacity of the band array; \<open>juce::jlimit\<close> on \<open>int\<close>.\<close>

definition numBands :: int where
  "numBands = 8"

definition jlimit :: "int \<Rightarrow> int \<Rightarrow> int \<Rightarrow> int" where
  "jlimit lowerLimit upperLimit valueToConstrain =
     (if valueToConstrain < lowerLimit then lowerLimit
      else if upperLimit < valueToConstrain then upperLimit
      else valueToConstrain)"

text \<open>
  The parameter tree, read through \<open>getRawParameterValue (prefix + name)->load()\<close> with
  \<open>prefix = "band" + String (i) + "_"\<close>: a value for every band index and
  parameter name.
\<close>

type_synonym Apvts = "int \<Rightarrow> string \<Rightarrow> real"

text \<open>
  The processor. The input and output channel counts are those of the host's bus layout
  (\<open>getTotalNumInputChannels\<close>, \<open>getTotalNumOutputChannels\<close>). \<open>bands\<close> is a
  \<open>std::array\<close> of \<open>numBands\<close> bands.
\<close>

record 'm DynamicEQAudioProcessor =
  apvts :: Apvts
  activeBandCount :: int
  bands :: "'m DynamicEQBand list"
  preSpectrum :: SpectrumAnalyzer
  postSpectrum :: SpectrumAnalyzer
  lastSampleRate :: real
  totalNumInputChannels :: int
  totalNumOutputChannels :: int


definition setActiveBandCount ::
  "'m DynamicEQAudioProcessor \<Rightarrow> int \<Rightarrow> 'm DynamicEQAudioProcessor" where
  "setActiveBandCount P count = P\<lparr>activeBandCount := jlimit 1 numBands count\<rparr>"


text \<open>\<open>static_cast<int>\<close> of a float truncates toward zero.\<close>

definition truncToInt :: "real \<Rightarrow> int" where
  "truncToInt r = (if 0 \<le> r then \<lfloor>r\<rfloor> else \<lceil>r\<rceil>)"

definition filterTypeOfInt :: "int \<Rightarrow> FilterType" where
  "filterTypeOfInt i =
     (if i = 0 then LowShelf else if i = 1 then Peak else if i = 2 then HighShelf
      else if i = 3 then LowCut else if i = 4 then HighCut else if i = 5 then Notch
      else if i = 6 then BandPass else OtherType i)"

text \<open>The parameter loads of \<open>updateBandParams\<close>.\<close>

definition readBandParams :: "Apvts \<Rightarrow> int \<Rightarrow> BandParams" where
  "readBandParams a bandIndex =
     \<lparr>frequency = a bandIndex ''freq'',
      gain = a bandIndex ''gain'',
      q = a bandIndex ''q'',
      threshold = a bandIndex ''threshold'',
      ratio = a bandIndex ''ratio'',
      attackMs = a bandIndex ''attack'',
      releaseMs = a bandIndex ''release'',
      enabled = (a bandIndex ''enabled'' > 0.5),
      dynamicOn = (a bandIndex ''dynamic'' > 0.5),
      ftype = filterTypeOfInt (truncToInt (a bandIndex ''type''))\<rparr>"

text \<open>
  \<open>bands[static_cast<size_t> (bandIndex)]\<close>: a negative index becomes a huge
  \<open>size_t\<close>, so every index outside the array is out of range.
\<close>

definition bandAt :: "'m DynamicEQAudioProcessor \<Rightarrow> int \<Rightarrow> Fault + 'm DynamicEQBand" where
  "bandAt P bandIndex =
     (if 0 \<le> bandIndex \<and> nat bandIndex < length (bands P)
      then Inr (bands P ! nat bandIndex) else Inl IndexOutOfRange)"

definition updateBandParams ::
  "'m Juce \<Rightarrow> 'm DynamicEQAudioProcessor \<Rightarrow> int \<Rightarrow> Fault + 'm DynamicEQAudioProcessor" where
  "updateBandParams J P bandIndex =
     (case bandAt P bandIndex of
        Inl e \<Rightarrow> Inl e
      | Inr band \<Rightarrow>
          (case updateParams J band (readBandParams (apvts P) bandIndex) of
             Inl e \<Rightarrow> Inl e
           | Inr band' \<Rightarrow> Inr (P\<lparr>bands := (bands P)[nat bandIndex := band']\<rparr>)))"

text \<open>
  The body of the band loop of \<open>processBlock\<close>:
  \<open>updateBandParams (i); bands[i].process (buffer);\<close>
\<close>

definition processBand ::
  "'m Juce \<Rightarrow> int \<Rightarrow> 'm DynamicEQAudioProcessor \<times> AudioBuffer \<Rightarrow>
     Fault + ('m DynamicEQAudioProcessor \<times> AudioBuffer)" where
  "processBand J i st =
     (case updateBandParams J (fst st) i of
        Inl e \<Rightarrow> Inl e
      | Inr P1 \<Rightarrow>
          (case bandAt P1 i of
             Inl e \<Rightarrow> Inl e
           | Inr band \<Rightarrow>
               (case process J band (snd st) of
                  Inl e \<Rightarrow> Inl e
                | Inr (band', out) \<Rightarrow> Inr (P1\<lparr>bands := (bands P1)[nat i := band']\<rparr>, out))))"

text \<open>
  The loop \<open>for (int i = 0; i < activeBandCount.load(); ++i)\<close>, with the count read
  again at every test, entered at index \<open>i\<close>.
\<close>

function processBands ::
  "'m Juce \<Rightarrow> 'm DynamicEQAudioProcessor \<times> AudioBuffer \<Rightarrow> int \<Rightarrow>
     Fault + ('m DynamicEQAudioProcessor \<times> AudioBuffer)" where
  "processBands J st i =
     (if i < activeBandCount (fst st)
      then (case processBand J i st of
              Inl e \<Rightarrow> Inl e
            | Inr st' \<Rightarrow> processBands J st' (i + 1))
      else Inr st)"
  by pat_completeness auto
termination
  by (relation "measure (\<lambda>(J, st, i). nat (activeBandCount (fst st) - i))")
     (auto simp: processBand_def updateBandParams_def split: sum.splits prod.splits)

declare processBands.simps [simp del]

text \<open>The loop that clears output channels which have no input.\<close>

definition clearChannel :: "AudioBuffer \<Rightarrow> nat \<Rightarrow> AudioBuffer" where
  "clearChannel buffer i =
     buffer\<lparr>channels := (channels buffer)
               [i := replicate (numSamples buffer) (Fin 0)
                       @ drop (numSamples buffer) (channels buffer ! i)]\<rparr>"

definition clearUnusedOutputs :: "'m DynamicEQAudioProcessor \<Rightarrow> AudioBuffer \<Rightarrow> AudioBuffer" where
  "clearUnusedOutputs P buffer =
     foldl clearChannel buffer [nat (totalNumInputChannels P)..<nat (totalNumOutputChannels P)]"

text \<open>
  The mono mix pushed to the analyzers: a cleared one-channel buffer to which every
  channel is added with gain \<open>1 / numChannels\<close>.
\<close>

definition monoMix :: "AudioBuffer \<Rightarrow> float list" where
  "monoMix buffer =
     foldl (\<lambda>mono data.
              map2 (\<lambda>m x. fadd m (fmul x (fdiv (Fin 1) (float_of (real (getNumChannels buffer))))))
                mono data)
       (replicate (numSamples buffer) (Fin 0)) (channels buffer)"

definition processBlock ::
  "'m Juce \<Rightarrow> 'm DynamicEQAudioProcessor \<Rightarrow> AudioBuffer \<Rightarrow>
     Fault + ('m DynamicEQAudioProcessor \<times> AudioBuffer)" where
  "processBlock J P buffer =
     (let b1 = clearUnusedOutputs P buffer;
          P1 = P\<lparr>preSpectrum :=
                   pushSamples analyzerConfig (preSpectrum P) (monoMix b1) (numSamples b1)\<rparr>
      in case processBands J (P1, b1) 0 of
           Inl e \<Rightarrow> Inl e
         | Inr (P2, b2) \<Rightarrow>
             Inr (P2\<lparr>postSpectrum :=
                       pushSamples analyzerConfig (postSpectrum P2) (monoMix b2) (numSamples b2)\<rparr>,
                  b2))"

definition getBandGainReduction :: "'m DynamicEQAudioProcessor \<Rightarrow> int \<Rightarrow> Fault + float" where
  "getBandGainReduction P bandIndex =
     (if bandIndex \<ge> 0 \<and> bandIndex < numBands
      then (case bandAt P bandIndex of
              Inl e \<Rightarrow> Inl e
            | Inr band \<Rightarrow> Inr (getGainReductionDB band))
      else Inr (Fin 0))"

text \<open>
  The cascade in the specification's words: the bands of a list of indices are applied
  one after the other, each to the buffer the one before it left.
\<close>

fun cascade ::
  "'m Juce \<Rightarrow> int list \<Rightarrow> 'm DynamicEQAudioProcessor \<times> AudioBuffer \<Rightarrow>
     Fault + ('m DynamicEQAudioProcessor \<times> AudioBuffer)" where
  "cascade J [] st = Inr st"
| "cascade J (i # is) st =
     (case processBand J i st of Inl e \<Rightarrow> Inl e | Inr st' \<Rightarrow> cascade J is st')"

section \<open>SpectrumComponent: the curve cache\<close>





record BandSnapshot =
  snap_freq :: real
  snap_gain :: real
  snap_q :: real
  snap_gr :: float
  snap_type :: int
  snap_enabled :: bool
  snap_dynamic :: bool


text \<open>
  The part of the component that the curve cache uses. \<open>width\<close> is the component's
  \<open>getWidth ()\<close>.
\<close>

record SpectrumComponent =
  cachedBandMagnitudes :: "float list list"
  cachedTotalMagnitude :: "float list"
  curveFrequencies :: "real list"
  curveNeedsUpdate :: bool
  lastSnapshots :: "BandSnapshot list"
  lastActiveBandCount :: int
  width :: int

definition resized :: "SpectrumComponent \<Rightarrow> SpectrumComponent" where
  "resized c = c\<lparr>curveNeedsUpdate := True\<rparr>"











section \<open>A library instance and sample inputs\<close>

text \<open>
  To evaluate the model on concrete inputs, the library record needs a value. The one
  below follows the library's decibel conversions and runs a biquad section in
  transposed direct form II with one pair of delay cells per channel. The cookbook
  coefficient makers are not reproduced: each returns the identity section.
\<close>

fun flog10 :: "float \<Rightarrow> float" where
  "flog10 (Fin a) = (if 0 < a then float_of (log 10 a) else if a = 0 then NInf else NaN)"
| "flog10 PInf = PInf"
| "flog10 x = NaN"

fun fpow10 :: "float \<Rightarrow> float" where
  "fpow10 (Fin a) = float_of (10 powr a)"
| "fpow10 PInf = PInf"
| "fpow10 NInf = Fin 0"
| "fpow10 NaN = NaN"

definition juce_gainToDecibels :: "float \<Rightarrow> float \<Rightarrow> float" where
  "juce_gainToDecibels g minusInfinityDb =
     (if flt (Fin 0) g then fmax minusInfinityDb (fmul (flog10 g) (Fin 20))
      else minusInfinityDb)"

definition juce_decibelsToGain :: "float \<Rightarrow> float \<Rightarrow> float" where
  "juce_decibelsToGain decibels minusInfinityDb =
     (if flt minusInfinityDb decibels then fpow10 (fmul decibels (Fin 0.05)) else Fin 0)"

fun biquadChannel ::
  "float \<times> float \<times> float \<times> float \<times> float \<Rightarrow> float \<times> float \<Rightarrow> float list \<Rightarrow>
     (float \<times> float) \<times> float list" where
  "biquadChannel c m [] = (m, [])"
| "biquadChannel (b0, b1, b2, a1, a2) (lv1, lv2) (x # xs) =
     (let y = fadd (fmul x b0) lv1;
          (m, ys) = biquadChannel (b0, b1, b2, a1, a2)
                      (fadd (fsub (fmul x b1) (fmul y a1)) lv2,
                       fsub (fmul x b2) (fmul y a2)) xs
      in (m, y # ys))"

fun biquadChannels ::
  "float \<times> float \<times> float \<times> float \<times> float \<Rightarrow> (float \<times> float) list \<Rightarrow> float list list \<Rightarrow>
     (float \<times> float) list \<times> float list list" where
  "biquadChannels c (m # ms) (d # ds) =
     (let (m', d') = biquadChannel c m d; (ms', ds') = biquadChannels c ms ds
      in (m' # ms', d' # ds'))"
| "biquadChannels c ms ds = (ms, ds)"

fun biquadProcess ::
  "Coefficients \<Rightarrow> (float \<times> float) list \<Rightarrow> AudioBuffer \<Rightarrow>
     (float \<times> float) list \<times> AudioBuffer" where
  "biquadProcess (Coefficients b0 b1 b2 a0 a1 a2) mem buffer =
     (let k = (if a0 = Fin 0 then Fin 0 else fdiv (Fin 1) a0);
          (mem', ds) = biquadChannels (fmul b0 k, fmul b1 k, fmul b2 k, fmul a1 k, fmul a2 k)
                         mem (channels buffer)
      in (mem', buffer\<lparr>channels := ds\<rparr>))"

definition identitySection :: Coefficients where
  "identitySection = Coefficients (Fin 1) (Fin 0) (Fin 0) (Fin 1) (Fin 0) (Fin 0)"

definition modelJuce :: "(float \<times> float) list Juce" where
  "modelJuce =
     \<lparr>gainToDecibels = juce_gainToDecibels,
      decibelsToGain = juce_decibelsToGain,
      makeLowShelf = (\<lambda>sr f qv g. identitySection),
      makePeakFilter = (\<lambda>sr f qv g. identitySection),
      makeHighShelf = (\<lambda>sr f qv g. identitySection),
      makeHighPass = (\<lambda>sr f qv. identitySection),
      makeLowPass = (\<lambda>sr f qv. identitySection),
      makeBandPass = (\<lambda>sr f qv. identitySection),
      defaultCoefficients = Coefficients (Fin 0) (Fin 0) (Fin 0) (Fin 1) (Fin 0) (Fin 0),
      emptyMemory = [],
      filterPrepare = (\<lambda>spec m. replicate (spec_numChannels spec) (Fin 0, Fin 0)),
      filterProcess = biquadProcess,
      getMagnitudeForFrequencyArray = (\<lambda>c fs sr. map (\<lambda>f. Fin 1) fs)\<rparr>"

text \<open>
  A freshly constructed band whose filter holds one channel of cleared delay memory.
\<close>

definition quietBand :: "(float \<times> float) list DynamicEQBand" where
  "quietBand = (newDynamicEQBand modelJuce)\<lparr>filterMem := [(Fin 0, Fin 0)]\<rparr>"

definition oneSample :: "float \<Rightarrow> AudioBuffer" where
  "oneSample x = \<lparr>numSamples = 1, channels = [[x]]\<rparr>"

definition threeSamples :: AudioBuffer where
  "threeSamples = \<lparr>numSamples = 3, channels = [[Fin 1, Fin (1 / 2), Fin 0]]\<rparr>"

text \<open>
  That band after \<open>updateParams\<close> with the default parameters at 44100 Hz (lemma
  \<open>preparedBand_updateParams\<close>).
\<close>

definition preparedBand :: "(float \<times> float) list DynamicEQBand" where
  "preparedBand =
     quietBand\<lparr>envelopeFollower :=
                 newEnvelopeFollower\<lparr>attackCoeff := exp (- (1 / 441)),
                                      releaseCoeff := exp (- (1 / 4410))\<rparr>,
               filterState := identitySection, sidechainState := identitySection\<rparr>"

text \<open>
  A notch at a quarter of the sample rate, and the band that \<open>updateParams\<close> makes of
  it at 44100 Hz (lemma \<open>notchBand_updateParams\<close>).
\<close>

definition notchParams :: BandParams where
  "notchParams =
     defaultBandParams\<lparr>ftype := Notch, frequency := 11025, q := 1 / 2, threshold := 6\<rparr>"

definition notchBand :: "bool \<Rightarrow> (float \<times> float) list DynamicEQBand" where
  "notchBand d =
     \<lparr>params = notchParams\<lparr>dynamicOn := d\<rparr>, sampleRate = 44100,
      envelopeFollower =
        \<lparr>ef_sampleRate = 44100, attackCoeff = exp (- (1 / 441)),
         releaseCoeff = exp (- (1 / 4410)), envelope = Fin 0\<rparr>,
      filterState = Coefficients (Fin 1) (Fin 0) (Fin 1) (Fin 2) (Fin 0) (Fin 0),
      filterMem = [(Fin 0, Fin 0)],
      sidechainState = identitySection, sidechainMem = [],
      gainReductionDB = Fin 0\<rparr>"

text \<open>A notch frequency at three quarters of the sample rate, above Nyquist.\<close>

definition wideNotchParams :: BandParams where
  "wideNotchParams = defaultBandParams\<lparr>ftype := Notch, frequency := 33075, q := 1\<rparr>"

text \<open>The notch band after the host prepares it again with a sample rate of zero.\<close>

definition staleBand :: "(float \<times> float) list DynamicEQBand" where
  "staleBand =
     prepare modelJuce (notchBand False)
       \<lparr>spec_sampleRate = 0, maximumBlockSize = 512, spec_numChannels = 1\<rparr>"

text \<open>
  A parameter tree that holds the static notch of \<open>notchParams\<close> for every band, and a
  processor with two active bands on a mono bus.
\<close>

definition sampleApvts :: Apvts where
  "sampleApvts i name =
     (if name = ''freq'' then 11025 else if name = ''q'' then 1 / 2
      else if name = ''threshold'' then 6 else if name = ''ratio'' then 4
      else if name = ''attack'' then 10 else if name = ''release'' then 100
      else if name = ''enabled'' then 1 else if name = ''type'' then 5
      else 0)"

definition sampleProcessor :: "(float \<times> float) list DynamicEQAudioProcessor" where
  "sampleProcessor =
     \<lparr>apvts = sampleApvts, activeBandCount = 2,
      bands = [quietBand, quietBand, quietBand, quietBand,
               quietBand, quietBand, quietBand, quietBand],
      preSpectrum = newSpectrumAnalyzer analyzerConfig,
      postSpectrum = newSpectrumAnalyzer analyzerConfig,
      lastSampleRate = 44100, totalNumInputChannels = 1, totalNumOutputChannels = 1\<rparr>"

text \<open>An analyzer with a window of four samples and a hop of two.\<close>

definition smallConfig :: AnalyzerConfig where
  "smallConfig = \<lparr>fftOrder = 2, hopSize = 2\<rparr>"





section \<open>Properties of the IEEE operations\<close>

lemmas float_ops = fadd_def fsub_def fmul_def fdiv_def fmax_def

lemma inRange_floatBound [simp]: "inRange floatBound x = float_of x"
  by (simp add: float_of_def)

lemma floatBound_large: "1000000 < floatBound"
  by (simp add: floatBound_def)

lemma float_of_small: "\<bar>x\<bar> \<le> 1000000 \<Longrightarrow> float_of x = Fin x"
  using floatBound_large by (simp add: float_of_def inRange_def)

lemma floatBound_pos: "0 < floatBound"
  using floatBound_large by simp

lemma float_of_cases:
  "float_of x = Fin x \<and> \<bar>x\<bar> < floatBound \<or>
   float_of x = PInf \<and> floatBound \<le> x \<or>
   float_of x = NInf \<and> x \<le> - floatBound"
  unfolding float_of_def inRange_def using floatBound_pos by (simp split: if_splits)


lemma float_of_eq_Fin: "float_of x = Fin y \<Longrightarrow> y = x"
  by (auto simp: float_of_def inRange_def split: if_splits)

lemma float_of_nonneg_not_NInf: "0 \<le> x \<Longrightarrow> float_of x \<noteq> NInf"
  using floatBound_pos by (auto simp: float_of_def inRange_def)

section \<open>Properties of a single band\<close>

subsection \<open>What coefficient synthesis touches\<close>

lemma updateFilterCoefficients_params [simp]:
  "params (updateFilterCoefficients J s g) = params s"
  by (simp add: updateFilterCoefficients_def Let_def split: FilterType.split)

lemma updateFilterCoefficients_sampleRate [simp]:
  "sampleRate (updateFilterCoefficients J s g) = sampleRate s"
  by (simp add: updateFilterCoefficients_def Let_def split: FilterType.split)

lemma updateFilterCoefficients_envelopeFollower [simp]:
  "envelopeFollower (updateFilterCoefficients J s g) = envelopeFollower s"
  by (simp add: updateFilterCoefficients_def Let_def split: FilterType.split)

lemma updateFilterCoefficients_filterMem [simp]:
  "filterMem (updateFilterCoefficients J s g) = filterMem s"
  by (simp add: updateFilterCoefficients_def Let_def split: FilterType.split)

lemma updateFilterCoefficients_gainReductionDB [simp]:
  "gainReductionDB (updateFilterCoefficients J s g) = gainReductionDB s"
  by (simp add: updateFilterCoefficients_def Let_def split: FilterType.split)



lemma process_dynamic_unfold:
  assumes "enabled (params s)" and "dynamicOn (params s)"
    and "computeReduction (fst (detectEnvelope J s buffer))
           (threshold (params s)) (ratio (params s)) = Inr r"
  shows "process J s buffer =
           Inr (let s2 = updateFilterCoefficients J
                           (s\<lparr>envelopeFollower := snd (detectEnvelope J s buffer),
                              gainReductionDB := r\<rparr>)
                           (fsub (float_of (gain (params s))) r);
                    res = filterProcess J (filterState s2) (filterMem s2) buffer
                in (s2\<lparr>filterMem := fst res\<rparr>, snd res))"
  using assms
  by (simp add: process_def Let_def split_beta)

lemma updateSidechainFilter_fields [simp]:
  "params (updateSidechainFilter J s) = params s"
  "sampleRate (updateSidechainFilter J s) = sampleRate s"
  "envelopeFollower (updateSidechainFilter J s) = envelopeFollower s"
  "filterState (updateSidechainFilter J s) = filterState s"
  "filterMem (updateSidechainFilter J s) = filterMem s"
  "gainReductionDB (updateSidechainFilter J s) = gainReductionDB s"
  by (simp_all add: updateSidechainFilter_def)


lemma computeReduction_ok:
  "r \<noteq> 0 \<Longrightarrow>
   computeReduction e t r =
     Inr (if flt (float_of t) e
          then fsub (fsub e (float_of t)) (fdiv (fsub e (float_of t)) (float_of r))
          else Fin 0)"
  by (simp add: computeReduction_def Let_def)

subsection \<open>Evaluating the sample inputs\<close>

lemma quietBand_params:
  "enabled (params quietBand)" "dynamicOn (params quietBand)"
  "threshold (params quietBand) = - 20" "ratio (params quietBand) = 4"
  by (simp_all add: quietBand_def newDynamicEQBand_def defaultBandParams_def)

lemma peakLevel_oneSample: "peakLevel (oneSample x) = fmax (Fin 0) (fabs x)"
  by (simp add: peakLevel_def oneSample_def)

lemma sqrt_tenth: "0 < (10::real) powr (- 1 / 2)" "(10::real) powr (- 1 / 2) \<le> 1"
proof -
  show "0 < (10::real) powr (- 1 / 2)" by simp
  have "(10::real) powr (- 1 / 2) \<le> 10 powr 0"
    by (rule powr_mono) simp_all
  then show "(10::real) powr (- 1 / 2) \<le> 1" by simp
qed

lemma detectEnvelope_minus10:
  "detectEnvelope modelJuce quietBand (oneSample (Fin (10 powr (- 1 / 2))))
     = (Fin (- 10), newEnvelopeFollower\<lparr>envelope := Fin (10 powr (- 1 / 2))\<rparr>)"
  using sqrt_tenth
  by (simp add: detectEnvelope_def peakLevel_oneSample modelJuce_def quietBand_def
      newDynamicEQBand_def juce_gainToDecibels_def juce_decibelsToGain_def
      EnvelopeFollower_process_def newEnvelopeFollower_def Let_def float_ops float_of_small)

lemma detectEnvelope_silence:
  "detectEnvelope modelJuce quietBand (oneSample (Fin 0)) = (Fin (- 100), newEnvelopeFollower)"
  by (simp add: detectEnvelope_def peakLevel_oneSample modelJuce_def quietBand_def
      newDynamicEQBand_def juce_gainToDecibels_def juce_decibelsToGain_def
      EnvelopeFollower_process_def newEnvelopeFollower_def Let_def float_ops float_of_small)

lemma detectEnvelope_infinite:
  "detectEnvelope modelJuce quietBand (oneSample PInf)
     = (PInf, newEnvelopeFollower\<lparr>envelope := PInf\<rparr>)"
  by (simp add: detectEnvelope_def peakLevel_oneSample modelJuce_def quietBand_def
      newDynamicEQBand_def juce_gainToDecibels_def juce_decibelsToGain_def
      EnvelopeFollower_process_def newEnvelopeFollower_def Let_def float_ops float_of_small)

lemma preparedBand_updateParams:
  "updateParams modelJuce quietBand defaultBandParams = Inr preparedBand"
  by (simp add: updateParams_def setAttackRelease_def quietBand_def newDynamicEQBand_def
      newEnvelopeFollower_def defaultBandParams_def preparedBand_def
      updateFilterCoefficients_def updateSidechainFilter_def modelJuce_def Let_def)

lemma preparedBand_infinite:
  "detectEnvelope modelJuce preparedBand (oneSample PInf)
     = (PInf, (envelopeFollower preparedBand)\<lparr>envelope := PInf\<rparr>)"
proof -
  have "exp (- (1 / 441) :: real) < 1" "0 < exp (- (1 / 441) :: real)"
    by simp_all
  then have c: "\<bar>exp (- (1 / 441) :: real)\<bar> \<le> 1000000"
    "\<bar>1 - exp (- (1 / 441) :: real)\<bar> \<le> 1000000" "0 < 1 - exp (- (1 / 441) :: real)"
    by linarith+
  show ?thesis
    using c
    by (simp add: detectEnvelope_def peakLevel_oneSample modelJuce_def preparedBand_def
      quietBand_def newDynamicEQBand_def juce_gainToDecibels_def juce_decibelsToGain_def
      EnvelopeFollower_process_def newEnvelopeFollower_def Let_def float_ops float_of_small
      del: exp_less_one_iff)
qed

lemma two_pi_small: "\<bar>2 * pi * 11025\<bar> \<le> 1000000" "\<bar>2 * pi * 33075\<bar> \<le> 1000000"
  using pi_less_4 pi_gt_zero by simp_all

lemma w0_quarter:
  "fdiv (fmul (Fin (2 * pi)) (float_of 11025)) (float_of 44100) = Fin (pi / 2)"
proof -
  have "fmul (Fin (2 * pi)) (float_of 11025) = Fin (2 * pi * 11025)"
    using two_pi_small(1) by (simp add: float_ops float_of_small)
  moreover have "\<bar>pi / 2\<bar> \<le> 1000000"
    using pi_less_4 pi_gt_zero by simp
  ultimately show ?thesis
    by (simp add: float_ops float_of_small)
qed

lemma w0_three_quarters:
  "fdiv (fmul (Fin (2 * pi)) (float_of 33075)) (float_of 44100) = Fin (3 / 2 * pi)"
proof -
  have "fmul (Fin (2 * pi)) (float_of 33075) = Fin (2 * pi * 33075)"
    using two_pi_small(2) by (simp add: float_ops float_of_small)
  moreover have "\<bar>3 / 2 * pi\<bar> \<le> 1000000"
    using pi_less_4 pi_gt_zero by simp
  ultimately show ?thesis
    by (simp add: float_ops float_of_small)
qed

lemma notchCoefficients_quarter:
  "notchCoefficients 44100 11025 (1 / 2)
     = Coefficients (Fin 1) (Fin 0) (Fin 1) (Fin 2) (Fin 0) (Fin 0)"
  unfolding notchCoefficients_def Let_def w0_quarter
  by (simp add: float_ops float_of_small)

lemma notchBand_updateParams:
  "updateParams modelJuce quietBand (notchParams\<lparr>dynamicOn := d\<rparr>) = Inr (notchBand d)"
  by (simp add: updateParams_def setAttackRelease_def quietBand_def newDynamicEQBand_def
      newEnvelopeFollower_def notchParams_def notchBand_def defaultBandParams_def
      updateFilterCoefficients_def updateSidechainFilter_def modelJuce_def
      defaultMinusInfinitydB_def notchCoefficients_quarter Let_def)




lemma staleBand_eq:
  "staleBand =
     \<lparr>params = notchParams\<lparr>dynamicOn := False\<rparr>, sampleRate = 0,
      envelopeFollower =
        \<lparr>ef_sampleRate = 0, attackCoeff = exp (- (1 / 441)),
         releaseCoeff = exp (- (1 / 4410)), envelope = Fin 0\<rparr>,
      filterState = Coefficients (Fin 1) (Fin 0) (Fin 1) (Fin 2) (Fin 0) (Fin 0),
      filterMem = [(Fin 0, Fin 0)],
      sidechainState = identitySection, sidechainMem = [(Fin 0, Fin 0)],
      gainReductionDB = Fin 0\<rparr>"
  by (simp add: staleBand_def prepare_def notchBand_def modelJuce_def
      EnvelopeFollower_prepare_def)

lemma staleBand_updateParams:
  "updateParams modelJuce staleBand (notchParams\<lparr>dynamicOn := False\<rparr>) = Inr staleBand"
  by (simp add: staleBand_eq updateParams_def setAttackRelease_def
      updateFilterCoefficients_def updateSidechainFilter_def)

lemma staleBand_output:
  "\<exists>s'. process modelJuce staleBand threeSamples
          = Inr (s', \<lparr>numSamples = 3, channels = [[Fin (1 / 2), Fin (1 / 4), Fin (1 / 2)]]\<rparr>)"
  by (simp add: staleBand_eq process_def notchParams_def defaultBandParams_def modelJuce_def
      threeSamples_def Let_def float_ops float_of_small)

lemma big_alpha: "fdiv (Fin 1) (fmul (Fin 2) (float_of (1 / 2 ^ 132))) = PInf"
  by (simp add: float_ops float_of_def inRange_def floatBound_def)

subsection \<open>The disabled band\<close>

text \<open>
  Claim C4. When \<open>params.enabled\<close> is false, \<open>process\<close> returns the buffer it was
  given, every sample of every channel as it was, and stores 0 as the published gain
  reduction; nothing else of the band changes.
\<close>

theorem process_disabled_leaves_buffer:
  assumes "\<not> enabled (params s)"
  shows "process J s buffer = Inr (s\<lparr>gainReductionDB := Fin 0\<rparr>, buffer)"
  using assms by (simp add: process_def)

theorem process_disabled_leaves_buffer_witness:
  "\<not> enabled (params (quietBand\<lparr>params := defaultBandParams\<lparr>enabled := False\<rparr>\<rparr>)) \<and>
   (case process modelJuce (quietBand\<lparr>params := defaultBandParams\<lparr>enabled := False\<rparr>\<rparr>)
           \<lparr>numSamples = 2, channels = [[Fin 1, Fin (- 1 / 2)], [Fin (1 / 4), Fin 0]]\<rparr> of
      Inl e \<Rightarrow> False
    | Inr (s', out) \<Rightarrow>
        out = \<lparr>numSamples = 2, channels = [[Fin 1, Fin (- 1 / 2)], [Fin (1 / 4), Fin 0]]\<rparr> \<and>
        gainReductionDB s' = Fin 0)"
  using process_disabled_leaves_buffer
    [of "quietBand\<lparr>params := defaultBandParams\<lparr>enabled := False\<rparr>\<rparr>" modelJuce
      "\<lparr>numSamples = 2, channels = [[Fin 1, Fin (- 1 / 2)], [Fin (1 / 4), Fin 0]]\<rparr>"]
  by (simp add: defaultBandParams_def)

subsection \<open>The gain-reduction law\<close>

text \<open>
  Claim C1. For an enabled band in dynamic mode, \<open>process\<close> publishes the reduction
  \<open>excess - excess / ratio\<close> with \<open>excess = envDB - threshold\<close> when the detected
  envelope in dB exceeds the threshold, and 0 otherwise, the three operations being those
  of binary32; with a threshold of -20 dB and a ratio of 4, an envelope reading of -10 dB
  gives exactly 7.5 dB. The ratio is taken to be nonzero (the registered range is 1 to
  20).
\<close>

theorem process_dynamic_reduction:
  assumes "enabled (params s)" and "dynamicOn (params s)" and "ratio (params s) \<noteq> 0"
  shows "\<exists>s' out. process J s buffer = Inr (s', out) \<and>
           gainReductionDB s' =
             (let envDB = fst (detectEnvelope J s buffer);
                  excess = fsub envDB (float_of (threshold (params s)))
              in if flt (float_of (threshold (params s))) envDB
                 then fsub excess (fdiv excess (float_of (ratio (params s))))
                 else Fin 0) \<and>
           (threshold (params s) = - 20 \<and> ratio (params s) = 4 \<and>
              fst (detectEnvelope J s buffer) = Fin (- 10) \<longrightarrow> gainReductionDB s' = Fin 7.5)"
proof -
  let ?e = "fst (detectEnvelope J s buffer)"
  let ?t = "float_of (threshold (params s))"
  let ?r = "if flt ?t ?e then fsub (fsub ?e ?t) (fdiv (fsub ?e ?t) (float_of (ratio (params s))))
            else Fin 0"
  have red: "computeReduction ?e (threshold (params s)) (ratio (params s)) = Inr ?r"
    using assms(3) by (rule computeReduction_ok)
  have scenario: "?r = Fin 7.5"
    if "threshold (params s) = - 20 \<and> ratio (params s) = 4 \<and> ?e = Fin (- 10)"
    using that by (simp add: float_ops float_of_small)
  show ?thesis
    unfolding process_dynamic_unfold [OF assms(1) assms(2) red]
    using scenario by (simp add: Let_def)
qed

theorem process_dynamic_reduction_witness:
  "enabled (params quietBand) \<and> dynamicOn (params quietBand) \<and> ratio (params quietBand) \<noteq> 0 \<and>
   threshold (params quietBand) = - 20 \<and> ratio (params quietBand) = 4 \<and>
   fst (detectEnvelope modelJuce quietBand (oneSample (Fin (10 powr (- 1 / 2))))) = Fin (- 10) \<and>
   (\<exists>s' out. process modelJuce quietBand (oneSample (Fin (10 powr (- 1 / 2)))) = Inr (s', out) \<and>
      gainReductionDB s' = Fin 7.5)"
proof -
  have p: "enabled (params quietBand)" "dynamicOn (params quietBand)"
    "ratio (params quietBand) \<noteq> 0" "threshold (params quietBand) = - 20"
    "ratio (params quietBand) = 4"
    by (simp_all add: quietBand_def newDynamicEQBand_def defaultBandParams_def)
  have e: "fst (detectEnvelope modelJuce quietBand (oneSample (Fin (10 powr (- 1 / 2)))))
             = Fin (- 10)"
    using detectEnvelope_minus10 by simp
  from process_dynamic_reduction [OF p(1,2,3), of modelJuce "oneSample (Fin (10 powr (- 1 / 2)))"]
  obtain s' out where
    "process modelJuce quietBand (oneSample (Fin (10 powr (- 1 / 2)))) = Inr (s', out)"
    "threshold (params quietBand) = - 20 \<and> ratio (params quietBand) = 4 \<and>
     fst (detectEnvelope modelJuce quietBand (oneSample (Fin (10 powr (- 1 / 2))))) = Fin (- 10)
       \<longrightarrow> gainReductionDB s' = Fin 7.5"
    by blast
  with p e show ?thesis by blast
qed

text \<open>
  The excess over the threshold is a positive finite number unless it is \<open>+\<infinity>\<close>, and
  with a ratio of at least 1 the reduction of a finite excess is finite and not negative,
  that of an infinite one is \<open>\<infinity> - \<infinity>\<close>.
\<close>

lemma excess_finite:
  assumes "flt (float_of t) e" and "fsub e (float_of t) \<noteq> PInf"
  obtains x where "fsub e (float_of t) = Fin x" and "0 < x" and "x < floatBound"
proof -
  from float_of_cases [of t] assms
  show ?thesis
    by (cases e) (auto simp: float_ops float_of_def inRange_def split: if_splits intro: that)
qed

lemma excess_infinite:
  assumes "fsub e (float_of t) = PInf"
  shows "flt (float_of t) e"
  using float_of_cases [of t] assms floatBound_pos
  by (cases e) (auto simp: float_ops float_of_def inRange_def split: if_splits)

lemma reduction_of_finite_excess:
  assumes "1 \<le> r" and "0 < x" and "x < floatBound"
  shows "\<exists>g. fsub (Fin x) (fdiv (Fin x) (float_of r)) = Fin g \<and> 0 \<le> g"
proof -
  have q: "0 \<le> x / r" "x / r \<le> x"
    using assms by (simp_all add: divide_le_eq)
  from float_of_cases [of r] assms(1) floatBound_pos
  consider "float_of r = Fin r" | "float_of r = PInf" by fastforce
  then show ?thesis
  proof cases
    case 1
    have b: "\<bar>x / r\<bar> < floatBound" "\<bar>x - x / r\<bar> < floatBound"
      using q assms(3) by linarith+
    have "fdiv (Fin x) (float_of r) = Fin (x / r)"
      using 1 assms(1) b(1) by (simp add: float_ops float_of_def inRange_def)
    moreover have "fsub (Fin x) (Fin (x / r)) = Fin (x - x / r)"
      using b(2) by (simp add: float_ops float_of_def inRange_def)
    ultimately show ?thesis using q by simp
  next
    case 2
    then show ?thesis
      using assms by (simp add: float_ops float_of_def inRange_def)
  qed
qed

lemma reduction_of_infinite_excess:
  assumes "1 \<le> r"
  shows "fsub PInf (fdiv PInf (float_of r)) = NaN"
  using float_of_cases [of r] assms floatBound_pos
  by (auto simp: float_ops)

text \<open>
  Claim C3, as amended. With \<open>ratio \<ge> 1\<close>, every call of \<open>process\<close> (disabled,
  static or dynamic) returns. The published gain reduction is 0 whenever the detected
  envelope in dB does not exceed the threshold. It is a finite number that is not
  negative whenever the excess \<open>envDB - threshold\<close> is not \<open>+\<infinity>\<close>. When the excess is
  \<open>+\<infinity>\<close>, as it is for an infinite envelope reading, an enabled dynamic band publishes
  NaN.
\<close>

theorem gainReduction_nonneg_finite:
  assumes "ratio (params s) \<ge> 1"
  shows "\<exists>s' out. process J s buffer = Inr (s', out) \<and>
           (\<not> flt (float_of (threshold (params s))) (fst (detectEnvelope J s buffer))
              \<longrightarrow> gainReductionDB s' = Fin 0) \<and>
           (fsub (fst (detectEnvelope J s buffer)) (float_of (threshold (params s))) \<noteq> PInf
              \<longrightarrow> (\<exists>g. gainReductionDB s' = Fin g \<and> 0 \<le> g)) \<and>
           (enabled (params s) \<and> dynamicOn (params s) \<and>
            fsub (fst (detectEnvelope J s buffer)) (float_of (threshold (params s))) = PInf
              \<longrightarrow> gainReductionDB s' = NaN)"
proof (cases "enabled (params s) \<and> dynamicOn (params s)")
  case False
  then show ?thesis
    by (auto simp: process_def Let_def split_beta)
next
  case True
  let ?e = "fst (detectEnvelope J s buffer)"
  let ?t = "float_of (threshold (params s))"
  let ?x = "fsub ?e ?t"
  let ?r = "if flt ?t ?e then fsub ?x (fdiv ?x (float_of (ratio (params s)))) else Fin 0"
  have nz: "ratio (params s) \<noteq> 0" using assms by simp
  have red: "computeReduction ?e (threshold (params s)) (ratio (params s)) = Inr ?r"
    using nz by (rule computeReduction_ok)
  have below: "\<not> flt ?t ?e \<longrightarrow> ?r = Fin 0" by simp
  have finite: "\<exists>g. ?r = Fin g \<and> 0 \<le> g" if ne: "?x \<noteq> PInf"
  proof (cases "flt ?t ?e")
    case False
    then show ?thesis by simp
  next
    case above: True
    from excess_finite [OF above ne] obtain x where
      x: "?x = Fin x" "0 < x" "x < floatBound" by blast
    from reduction_of_finite_excess [OF assms x(2,3)] above x(1)
    show ?thesis by simp
  qed
  have infinite: "?r = NaN" if inf: "?x = PInf"
    using excess_infinite [OF inf] inf reduction_of_infinite_excess [OF assms] by simp
  show ?thesis
    unfolding process_dynamic_unfold [OF conjunct1 [OF True] conjunct2 [OF True] red]
    using below finite infinite by (simp add: Let_def)
qed

theorem gainReduction_nonneg_finite_witness:
  "ratio (params quietBand) \<ge> 1 \<and>
   \<not> flt (float_of (threshold (params quietBand)))
         (fst (detectEnvelope modelJuce quietBand (oneSample (Fin 0)))) \<and>
   (\<exists>s' out. process modelJuce quietBand (oneSample (Fin 0)) = Inr (s', out) \<and>
      gainReductionDB s' = Fin 0) \<and>
   fsub (fst (detectEnvelope modelJuce quietBand (oneSample (Fin (10 powr (- 1 / 2))))))
     (float_of (threshold (params quietBand))) = Fin 10 \<and>
   (\<exists>s' out g. process modelJuce quietBand (oneSample (Fin (10 powr (- 1 / 2)))) = Inr (s', out) \<and>
      gainReductionDB s' = Fin g \<and> 0 \<le> g) \<and>
   fsub (fst (detectEnvelope modelJuce quietBand (oneSample PInf)))
     (float_of (threshold (params quietBand))) = PInf \<and>
   (\<exists>s' out. process modelJuce quietBand (oneSample PInf) = Inr (s', out) \<and>
      gainReductionDB s' = NaN)"
proof -
  have r: "ratio (params quietBand) \<ge> 1"
    by (simp add: quietBand_params)
  have silent: "\<not> flt (float_of (threshold (params quietBand)))
         (fst (detectEnvelope modelJuce quietBand (oneSample (Fin 0))))"
    by (simp add: detectEnvelope_silence quietBand_params float_of_small)
  have loud: "fsub (fst (detectEnvelope modelJuce quietBand (oneSample (Fin (10 powr (- 1 / 2))))))
     (float_of (threshold (params quietBand))) = Fin 10"
    using detectEnvelope_minus10 by (simp add: quietBand_params float_ops float_of_small)
  have inf: "fsub (fst (detectEnvelope modelJuce quietBand (oneSample PInf)))
     (float_of (threshold (params quietBand))) = PInf"
    by (simp add: detectEnvelope_infinite quietBand_params float_ops float_of_small)
  from gainReduction_nonneg_finite [OF r, of modelJuce "oneSample (Fin 0)"] silent
  have a: "\<exists>s' out. process modelJuce quietBand (oneSample (Fin 0)) = Inr (s', out) \<and>
      gainReductionDB s' = Fin 0"
    by blast
  from gainReduction_nonneg_finite [OF r, of modelJuce "oneSample (Fin (10 powr (- 1 / 2)))"] loud
  have b: "\<exists>s' out g. process modelJuce quietBand (oneSample (Fin (10 powr (- 1 / 2)))) = Inr (s', out) \<and>
      gainReductionDB s' = Fin g \<and> 0 \<le> g"
    by (metis float.distinct(1))
  from gainReduction_nonneg_finite [OF r, of modelJuce "oneSample PInf"] inf quietBand_params(1,2)
  have c: "\<exists>s' out. process modelJuce quietBand (oneSample PInf) = Inr (s', out) \<and>
      gainReductionDB s' = NaN"
    by blast
  from r silent a loud b inf c show ?thesis by blast
qed

text \<open>
  The claim as stated fails: nothing in \<open>process\<close> keeps an infinite sample out.
  For a block that holds one, the default band (threshold -20 dB, ratio 4) detects an
  infinite envelope and publishes NaN, which is not \<open>\<ge> 0\<close>; so it does freshly
  constructed, and so it does after \<open>updateParams\<close>.
\<close>

theorem infinite_sample_counterexample:
  "ratio (params quietBand) \<ge> 1 \<and>
   (case process modelJuce quietBand (oneSample PInf) of
      Inl e \<Rightarrow> False
    | Inr (s', out) \<Rightarrow> gainReductionDB s' = NaN \<and> \<not> fle (Fin 0) (gainReductionDB s')) \<and>
   ratio defaultBandParams \<ge> 1 \<and>
   (case updateParams modelJuce quietBand defaultBandParams of
      Inl e \<Rightarrow> False
    | Inr s \<Rightarrow>
        (case process modelJuce s (oneSample PInf) of
           Inl e \<Rightarrow> False
         | Inr (s', out) \<Rightarrow> gainReductionDB s' = NaN \<and> \<not> fle (Fin 0) (gainReductionDB s')))"
proof -
  have red: "computeReduction (fst (detectEnvelope modelJuce quietBand (oneSample PInf)))
               (threshold (params quietBand)) (ratio (params quietBand)) = Inr NaN"
    by (simp add: detectEnvelope_infinite quietBand_params computeReduction_def
        float_ops float_of_small)
  have fresh: "case process modelJuce quietBand (oneSample PInf) of
      Inl e \<Rightarrow> False
    | Inr (s', out) \<Rightarrow> gainReductionDB s' = NaN \<and> \<not> fle (Fin 0) (gainReductionDB s')"
    unfolding process_dynamic_unfold [OF quietBand_params(1,2) red]
    by (simp add: Let_def)
  have p: "enabled (params preparedBand)" "dynamicOn (params preparedBand)"
    "threshold (params preparedBand) = - 20" "ratio (params preparedBand) = 4"
    by (simp_all add: preparedBand_def quietBand_def newDynamicEQBand_def defaultBandParams_def)
  have red': "computeReduction (fst (detectEnvelope modelJuce preparedBand (oneSample PInf)))
               (threshold (params preparedBand)) (ratio (params preparedBand)) = Inr NaN"
    by (simp add: preparedBand_infinite p computeReduction_def float_ops float_of_small)
  have prepared: "case updateParams modelJuce quietBand defaultBandParams of
      Inl e \<Rightarrow> False
    | Inr s \<Rightarrow>
        (case process modelJuce s (oneSample PInf) of
           Inl e \<Rightarrow> False
         | Inr (s', out) \<Rightarrow> gainReductionDB s' = NaN \<and> \<not> fle (Fin 0) (gainReductionDB s'))"
    unfolding preparedBand_updateParams sum.case process_dynamic_unfold [OF p(1,2) red']
    by (simp add: Let_def)
  from fresh prepared show ?thesis
    by (simp add: quietBand_params defaultBandParams_def)
qed

subsection \<open>Dynamic mode below the threshold\<close>




subsection \<open>Coefficient synthesis\<close>

lemma alpha_zero_q_not_finite:
  "\<not> isFinite (fadd (Fin 1) (fdiv (fsin w) (fmul (Fin 2) (float_of 0))))"
  "\<not> isFinite (fsub (Fin 1) (fdiv (fsin w) (fmul (Fin 2) (float_of 0))))"
  by (cases w; simp add: float_ops float_of_small isFinite_def)+

text \<open>
  Claim C6, as amended. Coefficient synthesis clamps nothing and guarantees no finite
  result. With a positive sample rate it hands the stored frequency and Q as they are to
  the library's makers, and for the notch it evaluates, in binary32,
  \<open>w0 = 2 \<pi> frequency / sampleRate\<close> and \<open>alpha = sin w0 / (2 Q)\<close> of the stored
  values and passes \<open>(1, -2 cos w0, 1, 1 + alpha, -2 cos w0, 1 - alpha)\<close> on. A notch
  with \<open>Q = 0\<close> gets a coefficient set that is not finite, whatever its frequency.
\<close>

theorem coefficient_synthesis_unclamped:
  assumes "0 < sampleRate s"
  shows "filterState (updateFilterCoefficients J s gainDB) =
           (let p = params s; sr = sampleRate s;
                g = decibelsToGain J gainDB (Fin (- 100));
                w0 = fdiv (fmul (Fin (2 * pi)) (float_of (frequency p))) (float_of sr);
                alpha = fdiv (fsin w0) (fmul (Fin 2) (float_of (q p)))
            in case ftype p of
                 LowShelf \<Rightarrow> makeLowShelf J sr (frequency p) (q p) g
               | Peak \<Rightarrow> makePeakFilter J sr (frequency p) (q p) g
               | HighShelf \<Rightarrow> makeHighShelf J sr (frequency p) (q p) g
               | LowCut \<Rightarrow> makeHighPass J sr (frequency p) (q p)
               | HighCut \<Rightarrow> makeLowPass J sr (frequency p) (q p)
               | Notch \<Rightarrow> Coefficients (Fin 1) (fmul (Fin (- 2)) (fcos w0)) (Fin 1)
                            (fadd (Fin 1) alpha) (fmul (Fin (- 2)) (fcos w0)) (fsub (Fin 1) alpha)
               | BandPass \<Rightarrow> makeBandPass J sr (frequency p) (q p)
               | OtherType i \<Rightarrow> filterState s) \<and>
         (ftype (params s) = Notch \<and> q (params s) = 0 \<longrightarrow>
            \<not> finiteCoefficients (filterState (updateFilterCoefficients J s gainDB)))"
  using assms
  by (simp add: updateFilterCoefficients_def notchCoefficients_def defaultMinusInfinitydB_def
      alpha_zero_q_not_finite Let_def split: FilterType.split)

theorem coefficient_synthesis_unclamped_witness:
  "0 < sampleRate (quietBand\<lparr>params := wideNotchParams\<rparr>) \<and>
   filterState (updateFilterCoefficients modelJuce (quietBand\<lparr>params := wideNotchParams\<rparr>) (Fin 0))
     = Coefficients (Fin 1) (Fin 0) (Fin 1) (Fin (1 / 2)) (Fin 0) (Fin (3 / 2)) \<and>
   0 < sampleRate (quietBand\<lparr>params := defaultBandParams\<lparr>ftype := Notch, q := 0\<rparr>\<rparr>) \<and>
   ftype (params (quietBand\<lparr>params := defaultBandParams\<lparr>ftype := Notch, q := 0\<rparr>\<rparr>)) = Notch \<and>
   q (params (quietBand\<lparr>params := defaultBandParams\<lparr>ftype := Notch, q := 0\<rparr>\<rparr>)) = 0 \<and>
   \<not> finiteCoefficients (filterState (updateFilterCoefficients modelJuce
        (quietBand\<lparr>params := defaultBandParams\<lparr>ftype := Notch, q := 0\<rparr>\<rparr>) (Fin 0)))"
proof -
  have "3 * pi / 2 = 3 / 2 * pi" by simp
  then have t: "cos (3 * pi / 2) = 0" "sin (3 * pi / 2) = - 1"
    using cos_3over2_pi sin_3over2_pi by simp_all
  have sr: "sampleRate (quietBand\<lparr>params := wideNotchParams\<rparr>) = 44100"
    "params (quietBand\<lparr>params := wideNotchParams\<rparr>) = wideNotchParams"
    "frequency wideNotchParams = 33075" "q wideNotchParams = 1" "ftype wideNotchParams = Notch"
    by (simp_all add: quietBand_def newDynamicEQBand_def wideNotchParams_def defaultBandParams_def)
  have a: "filterState (updateFilterCoefficients modelJuce
              (quietBand\<lparr>params := wideNotchParams\<rparr>) (Fin 0))
     = Coefficients (Fin 1) (Fin 0) (Fin 1) (Fin (1 / 2)) (Fin 0) (Fin (3 / 2))"
    using coefficient_synthesis_unclamped
            [of "quietBand\<lparr>params := wideNotchParams\<rparr>" modelJuce "Fin 0"]
    unfolding sr Let_def w0_three_quarters
    by (simp add: t float_ops float_of_small)
  have z: "0 < sampleRate (quietBand\<lparr>params := defaultBandParams\<lparr>ftype := Notch, q := 0\<rparr>\<rparr>)"
    "ftype (params (quietBand\<lparr>params := defaultBandParams\<lparr>ftype := Notch, q := 0\<rparr>\<rparr>)) = Notch"
    "q (params (quietBand\<lparr>params := defaultBandParams\<lparr>ftype := Notch, q := 0\<rparr>\<rparr>)) = 0"
    by (simp_all add: quietBand_def newDynamicEQBand_def)
  from coefficient_synthesis_unclamped [OF z(1), of modelJuce "Fin 0"] z(2,3)
  have b: "\<not> finiteCoefficients (filterState (updateFilterCoefficients modelJuce
        (quietBand\<lparr>params := defaultBandParams\<lparr>ftype := Notch, q := 0\<rparr>\<rparr>) (Fin 0)))"
    by blast
  from a b z sr(1) show ?thesis by simp
qed

text \<open>
  The claim as stated fails: at 44100 Hz a notch at 11025 Hz with \<open>Q = 0\<close> divides
  by zero, and one with the positive \<open>Q = 1 / 2 ^ 132\<close> overflows; in both cases
  \<open>a0\<close> is \<open>+\<infinity>\<close> and \<open>a2\<close> is \<open>-\<infinity>\<close>.
\<close>

theorem notch_zero_q_counterexample:
  "filterState (updateFilterCoefficients modelJuce
      (quietBand\<lparr>params := notchParams\<lparr>q := 0\<rparr>\<rparr>) (Fin 0))
     = Coefficients (Fin 1) (Fin 0) (Fin 1) PInf (Fin 0) NInf \<and>
   \<not> finiteCoefficients (filterState (updateFilterCoefficients modelJuce
      (quietBand\<lparr>params := notchParams\<lparr>q := 0\<rparr>\<rparr>) (Fin 0))) \<and>
   filterState (updateFilterCoefficients modelJuce
      (quietBand\<lparr>params := notchParams\<lparr>q := 1 / 2 ^ 132\<rparr>\<rparr>) (Fin 0))
     = Coefficients (Fin 1) (Fin 0) (Fin 1) PInf (Fin 0) NInf \<and>
   \<not> finiteCoefficients (filterState (updateFilterCoefficients modelJuce
      (quietBand\<lparr>params := notchParams\<lparr>q := 1 / 2 ^ 132\<rparr>\<rparr>) (Fin 0)))"
proof -
  have a: "notchCoefficients 44100 11025 0
             = Coefficients (Fin 1) (Fin 0) (Fin 1) PInf (Fin 0) NInf"
    unfolding notchCoefficients_def Let_def w0_quarter
    by (simp add: float_ops float_of_small)
  have b: "notchCoefficients 44100 11025 (1 / 2 ^ 132)
             = Coefficients (Fin 1) (Fin 0) (Fin 1) PInf (Fin 0) NInf"
    unfolding notchCoefficients_def Let_def w0_quarter
    using big_alpha by (simp add: float_ops float_of_small)
  show ?thesis
    by (simp add: updateFilterCoefficients_def quietBand_def newDynamicEQBand_def
        notchParams_def defaultBandParams_def a b [simplified] isFinite_def Let_def)
qed

text \<open>
  Claim C7, as amended. When the stored sample rate is not positive, coefficient
  synthesis is skipped: the band, and with it the coefficient set of its filter, is left
  exactly as it was.
\<close>

theorem nonpositive_sampleRate_skips_synthesis:
  assumes "sampleRate s \<le> 0"
  shows "updateFilterCoefficients J s gainDB = s"
  using assms by (simp add: updateFilterCoefficients_def)

theorem nonpositive_sampleRate_skips_synthesis_witness:
  "sampleRate staleBand \<le> 0 \<and> updateFilterCoefficients modelJuce staleBand (Fin 6) = staleBand"
  using nonpositive_sampleRate_skips_synthesis [of staleBand modelJuce "Fin 6"]
  by (simp add: staleBand_eq)

text \<open>
  The claim as stated fails: the notch band prepared again with a sample rate of 0 keeps
  its notch coefficients through \<open>updateParams\<close>. They are not a pass-through set, and
  the next block is filtered by them.
\<close>

theorem stale_coefficients_counterexample:
  "sampleRate staleBand \<le> 0 \<and>
   (case updateParams modelJuce staleBand (notchParams\<lparr>dynamicOn := False\<rparr>) of
      Inl e \<Rightarrow> False
    | Inr s \<Rightarrow>
        filterState s = Coefficients (Fin 1) (Fin 0) (Fin 1) (Fin 2) (Fin 0) (Fin 0) \<and>
        \<not> isPassThrough (filterState s) \<and>
        (case process modelJuce s threeSamples of
           Inl e \<Rightarrow> False
         | Inr (s', out) \<Rightarrow> channels out = [[Fin (1 / 2), Fin (1 / 4), Fin (1 / 2)]] \<and>
                            channels out \<noteq> channels threeSamples))"
proof -
  obtain s' where
    "process modelJuce staleBand threeSamples
       = Inr (s', \<lparr>numSamples = 3, channels = [[Fin (1 / 2), Fin (1 / 4), Fin (1 / 2)]]\<rparr>)"
    using staleBand_output ..
  then show ?thesis
    unfolding staleBand_updateParams
    by (simp add: staleBand_eq threeSamples_def)
qed

section \<open>Properties of the spectrum analyzer\<close>

subsection \<open>The ring and the capture loop\<close>

lemma fftSize_pow: "fftSize cfg = 2 ^ fftOrder cfg"
  by (simp add: fftSize_def)

lemma fftSize_pos [simp]: "0 < fftSize cfg"
  by (simp add: fftSize_pow)

lemma mask_wrap: "x AND (fftSize cfg - 1) = x mod fftSize cfg"
proof -
  have "x AND (2 ^ fftOrder cfg - 1) = x AND mask (fftOrder cfg)"
    by (simp add: mask_eq_exp_minus_1)
  also have "\<dots> = take_bit (fftOrder cfg) x"
    by (simp add: take_bit_eq_mask)
  also have "\<dots> = x mod 2 ^ fftOrder cfg"
    by (simp add: take_bit_eq_mod)
  finally show ?thesis by (simp add: fftSize_pow)
qed

lemma mask_wrap_Suc: "x AND (fftSize cfg - Suc 0) = x mod fftSize cfg"
  using mask_wrap [of x cfg] by simp

lemma captureWindow_aux:
  "n \<le> length fd \<Longrightarrow>
   foldl (\<lambda>fd j. fd[j := f j]) fd [0..<n] = map f [0..<n] @ drop n fd"
proof (induction n)
  case 0
  then show ?case by simp
next
  case (Suc n)
  then have n: "n < length fd" by simp
  have "foldl (\<lambda>fd j. fd[j := f j]) fd [0..<Suc n] = (map f [0..<n] @ drop n fd)[n := f n]"
    using Suc by simp
  also have "\<dots> = map f [0..<n] @ (drop n fd)[0 := f n]"
    by (simp add: list_update_append)
  also have "drop n fd = fd ! n # drop (Suc n) fd"
    using n by (simp add: Cons_nth_drop_Suc)
  finally show ?case by simp
qed

lemma captureWindow_eq:
  assumes "fftSize cfg \<le> length fd"
  shows "captureWindow cfg cb wp fd =
           map (\<lambda>j. cb ! ((wp + j) AND (fftSize cfg - 1))) [0..<fftSize cfg] @ drop (fftSize cfg) fd"
  unfolding captureWindow_def using assms by (rule captureWindow_aux)

lemma ring_step:
  assumes len: "length cb = N" and wp: "wp < N"
  shows "map (\<lambda>j. cb[wp := x] ! (((wp + 1) mod N + j) mod N)) [0..<N]
           = tl (map (\<lambda>j. cb ! ((wp + j) mod N)) [0..<N]) @ [x]"
proof (rule nth_equalityI)
  show "length (map (\<lambda>j. cb[wp := x] ! (((wp + 1) mod N + j) mod N)) [0..<N])
          = length (tl (map (\<lambda>j. cb ! ((wp + j) mod N)) [0..<N]) @ [x])"
    using wp by simp
next
  fix j assume "j < length (map (\<lambda>j. cb[wp := x] ! (((wp + 1) mod N + j) mod N)) [0..<N])"
  then have j: "j < N" by simp
  have "((wp + 1) mod N + j) mod N = ((wp + 1) + j) mod N"
    by (rule mod_add_left_eq)
  also have "(wp + 1) + j = wp + (j + 1)" by simp
  finally have idx: "((wp + 1) mod N + j) mod N = (wp + (j + 1)) mod N" .
  have lhs: "map (\<lambda>j. cb[wp := x] ! (((wp + 1) mod N + j) mod N)) [0..<N] ! j
               = cb[wp := x] ! ((wp + (j + 1)) mod N)"
    using j idx by simp
  have rhs: "(tl (map (\<lambda>j. cb ! ((wp + j) mod N)) [0..<N]) @ [x]) ! j
               = (if j = N - 1 then x else cb ! ((wp + (j + 1)) mod N))"
  proof (cases "j = N - 1")
    case True
    then show ?thesis by (simp add: nth_append)
  next
    case False
    then have j1: "j + 1 < N" and jl: "j < N - 1" using j by simp_all
    have "(tl (map (\<lambda>j. cb ! ((wp + j) mod N)) [0..<N]) @ [x]) ! j
            = map (\<lambda>j. cb ! ((wp + j) mod N)) [0..<N] ! (j + 1)"
      using j1 jl by (simp add: nth_append nth_tl)
    also have "\<dots> = cb ! ((wp + (j + 1)) mod N)"
      using j1 by (simp only: nth_map_upt) simp
    finally show ?thesis using False by simp
  qed
  show "map (\<lambda>j. cb[wp := x] ! (((wp + 1) mod N + j) mod N)) [0..<N] ! j
          = (tl (map (\<lambda>j. cb ! ((wp + j) mod N)) [0..<N]) @ [x]) ! j"
  proof (cases "j = N - 1")
    case True
    then have "wp + (j + 1) = wp + N" using j by simp
    then have "(wp + (j + 1)) mod N = wp" using wp by simp
    then show ?thesis unfolding lhs rhs using True wp len by simp
  next
    case False
    then have j1: "j + 1 < N" using j by simp
    have ne: "(wp + (j + 1)) mod N \<noteq> wp"
    proof
      assume eq: "(wp + (j + 1)) mod N = wp"
      show False
      proof (cases "wp + (j + 1) < N")
        case True
        then show False using eq by simp
      next
        case False
        then have "(wp + (j + 1)) mod N = wp + (j + 1) - N"
          using wp j1 by (simp add: mod_if)
        then show False using eq j1 False by simp
      qed
    qed
    show ?thesis unfolding lhs rhs using False ne by simp
  qed
qed

lemma ringContents_mod:
  "ringContents cfg sa
     = map (\<lambda>j. circularBuffer sa ! ((writePos sa + j) mod fftSize cfg)) [0..<fftSize cfg]"
  by (simp add: ringContents_def mask_wrap mask_wrap_Suc)

lemma length_ringContents [simp]: "length (ringContents cfg sa) = fftSize cfg"
  by (simp add: ringContents_def)

lemma ringContents_pushSample:
  assumes "analyzerOk cfg sa"
  shows "ringContents cfg (pushSample cfg sa x) = tl (ringContents cfg sa) @ [x]"
proof -
  have len: "length (circularBuffer sa) = fftSize cfg" and wp: "writePos sa < fftSize cfg"
    using assms by (simp_all add: analyzerOk_def)
  have "ringContents cfg (pushSample cfg sa x)
          = map (\<lambda>j. (circularBuffer sa)[writePos sa := x]
                        ! (((writePos sa + 1) mod fftSize cfg + j) mod fftSize cfg))
              [0..<fftSize cfg]"
    by (simp add: ringContents_mod pushSample_def Let_def mask_wrap mask_wrap_Suc)
  also have "\<dots> = tl (ringContents cfg sa) @ [x]"
    unfolding ringContents_mod using len wp by (rule ring_step)
  finally show ?thesis .
qed

lemma analyzerOk_pushSample:
  assumes "analyzerOk cfg sa"
  shows "analyzerOk cfg (pushSample cfg sa x)"
proof -
  have fd: "fftSize cfg \<le> length (fftData sa)"
    using assms by (simp add: analyzerOk_def)
  show ?thesis
    using assms
    by (auto simp: analyzerOk_def pushSample_def Let_def mask_wrap mask_wrap_Suc captureWindow_eq [OF fd])
qed

lemma pushSample_capture:
  assumes "analyzerOk cfg sa" and "hopCounter sa + 1 = hopSize cfg"
  shows "hopCounter (pushSample cfg sa x) = 0"
    and "newFFTDataAvailable (pushSample cfg sa x)"
    and "take (fftSize cfg) (fftData (pushSample cfg sa x)) = ringContents cfg (pushSample cfg sa x)"
    and "drop (fftSize cfg) (fftData (pushSample cfg sa x)) = drop (fftSize cfg) (fftData sa)"
proof -
  have fd: "fftSize cfg \<le> length (fftData sa)"
    using assms(1) by (simp add: analyzerOk_def)
  show "hopCounter (pushSample cfg sa x) = 0" "newFFTDataAvailable (pushSample cfg sa x)"
    using assms(2) by (simp_all add: pushSample_def Let_def)
  show "take (fftSize cfg) (fftData (pushSample cfg sa x)) = ringContents cfg (pushSample cfg sa x)"
    using assms(2) by (simp add: pushSample_def Let_def captureWindow_eq [OF fd] ringContents_def)
  show "drop (fftSize cfg) (fftData (pushSample cfg sa x)) = drop (fftSize cfg) (fftData sa)"
    using assms(2) by (simp add: pushSample_def Let_def captureWindow_eq [OF fd])
qed

lemma pushSample_no_capture:
  assumes "hopCounter sa + 1 < hopSize cfg"
  shows "hopCounter (pushSample cfg sa x) = hopCounter sa + 1"
    and "fftData (pushSample cfg sa x) = fftData sa"
    and "newFFTDataAvailable (pushSample cfg sa x) = newFFTDataAvailable sa"
  using assms by (simp_all add: pushSample_def Let_def)

lemma tl_drop_snoc:
  assumes "n < length ys"
  shows "tl (drop n ys) @ [x] = drop (Suc n) (ys @ [x])"
proof -
  have "tl (drop n ys) = drop (Suc n) ys"
    by (simp only: drop_Suc tl_drop)
  then show ?thesis using assms by simp
qed

lemma newSpectrumAnalyzer_ok:
  "0 < hopSize cfg \<Longrightarrow> analyzerOk cfg (newSpectrumAnalyzer cfg)"
  by (simp add: analyzerOk_def newSpectrumAnalyzer_def)

subsection \<open>A block of samples\<close>

text \<open>
  Claim C8. Let an analyzer within its invariant receive the \<open>n\<close> samples \<open>xs\<close>, its
  hop counter standing at \<open>c\<close>. Every sample is appended to the ring: read from oldest
  to newest, the ring afterwards holds the last \<open>fftSize\<close> samples of what it held
  followed by \<open>xs\<close>. The counter ends at \<open>(c + n) mod hopSize\<close>, so a capture happens
  exactly when it reaches a multiple of \<open>hopSize\<close>. If no capture fell into the block
  (\<open>c + n < hopSize\<close>), snapshot buffer and flag are as before. Otherwise the flag is
  raised and the one snapshot buffer holds, oldest first, the \<open>fftSize\<close> most recent
  samples as of the last capture, which happened after \<open>m\<close> samples of the block,
  whatever snapshot was pending before: it is replaced, not queued. The upper half of
  the snapshot buffer is never written.
\<close>

theorem pushSamples_ring_and_snapshot:
  assumes "analyzerOk cfg sa"
  shows "let n = length xs;
             sa' = pushSamples cfg sa xs n;
             c = hopCounter sa;
             m = n - (c + n) mod hopSize cfg
         in analyzerOk cfg sa' \<and>
            ringContents cfg sa' = drop n (ringContents cfg sa @ xs) \<and>
            hopCounter sa' = (c + n) mod hopSize cfg \<and>
            drop (fftSize cfg) (fftData sa') = drop (fftSize cfg) (fftData sa) \<and>
            (if c + n < hopSize cfg
             then fftData sa' = fftData sa \<and> newFFTDataAvailable sa' = newFFTDataAvailable sa
             else pendingSnapshot cfg sa' = Some (drop m (ringContents cfg sa @ take m xs)))"
proof (induction xs rule: rev_induct)
  case Nil
  then show ?case
    using assms by (simp add: pushSamples_def analyzerOk_def)
next
  case (snoc x xs)
  let ?n = "length xs"
  let ?s = "pushSamples cfg sa xs ?n"
  let ?s' = "pushSample cfg ?s x"
  let ?c = "hopCounter sa"
  let ?hop = "hopSize cfg"
  let ?N = "fftSize cfg"
  let ?R = "ringContents cfg sa"
  let ?h = "(?c + ?n) mod ?hop"
  let ?m = "?n - ?h"
  from snoc have ok: "analyzerOk cfg ?s"
    and ring: "ringContents cfg ?s = drop ?n (?R @ xs)"
    and hc: "hopCounter ?s = ?h"
    and tail: "drop ?N (fftData ?s) = drop ?N (fftData sa)"
    and before: "?c + ?n < ?hop \<Longrightarrow>
                   fftData ?s = fftData sa \<and> newFFTDataAvailable ?s = newFFTDataAvailable sa"
    and after: "\<not> ?c + ?n < ?hop \<Longrightarrow>
                   pendingSnapshot cfg ?s = Some (drop ?m (?R @ take ?m xs))"
    by (simp_all add: Let_def)
  have hop: "0 < ?hop" and c: "?c < ?hop"
    using assms by (auto simp: analyzerOk_def)
  have h: "?h < ?hop" using hop by simp
  have ok': "analyzerOk cfg ?s'"
    using ok by (rule analyzerOk_pushSample)
  have "ringContents cfg ?s' = tl (drop ?n (?R @ xs)) @ [x]"
    using ringContents_pushSample [OF ok] ring by simp
  also have "\<dots> = drop (Suc ?n) ((?R @ xs) @ [x])"
    by (rule tl_drop_snoc) simp
  finally have ring': "ringContents cfg ?s' = drop (Suc ?n) (?R @ xs @ [x])" by simp
  define k where "k = (?c + Suc ?n) mod ?hop"
  have k: "k = (if Suc ?h = ?hop then 0 else Suc ?h)"
    unfolding k_def using mod_Suc [of "?c + ?n" ?hop] by simp
  have rest: "hopCounter ?s' = k \<and>
              drop ?N (fftData ?s') = drop ?N (fftData sa) \<and>
              (if ?c + Suc ?n < ?hop
               then fftData ?s' = fftData sa \<and> newFFTDataAvailable ?s' = newFFTDataAvailable sa
               else pendingSnapshot cfg ?s'
                      = Some (drop (Suc ?n - k) (?R @ take (Suc ?n - k) (xs @ [x]))))"
  proof (cases "Suc ?h = ?hop")
    case True
    then have cap: "hopCounter ?s + 1 = ?hop" using hc by simp
    note pc = pushSample_capture [OF ok cap, of x]
    have k0: "k = 0" using k True by simp
    have ge: "\<not> ?c + Suc ?n < ?hop"
    proof -
      have "?h \<le> ?c + ?n" by (rule mod_less_eq_dividend)
      then show ?thesis using True by linarith
    qed
    have "pendingSnapshot cfg ?s' = Some (ringContents cfg ?s')"
      using pc(2,3) by (simp add: pendingSnapshot_def)
    then have p3: "pendingSnapshot cfg ?s'
                     = Some (drop (Suc ?n - k) (?R @ take (Suc ?n - k) (xs @ [x])))"
      by (simp add: k0 ring')
    have p1: "hopCounter ?s' = k" using pc(1) k0 by simp
    have p2: "drop ?N (fftData ?s') = drop ?N (fftData sa)" using pc(4) tail by simp
    from ge p1 p2 p3 show ?thesis by presburger
  next
    case False
    then have lt: "hopCounter ?s + 1 < ?hop" using hc h by simp
    note pn = pushSample_no_capture [OF lt, of x]
    have kS: "k = Suc ?h" using k False by simp
    have pend: "pendingSnapshot cfg ?s' = pendingSnapshot cfg ?s"
      using pn by (simp add: pendingSnapshot_def)
    have p1: "hopCounter ?s' = k" using pn(1) hc kS by simp
    have p2: "drop ?N (fftData ?s') = drop ?N (fftData sa)" using pn(2) tail by simp
    show ?thesis
    proof (cases "?c + Suc ?n < ?hop")
      case True
      then have "?c + ?n < ?hop" by simp
      then have "fftData ?s' = fftData sa \<and> newFFTDataAvailable ?s' = newFFTDataAvailable sa"
        using before pn by simp
      with True p1 p2 show ?thesis by presburger
    next
      case ge: False
      have nlt: "\<not> ?c + ?n < ?hop"
      proof
        assume a: "?c + ?n < ?hop"
        then have "?h = ?c + ?n" by simp
        then show False using False ge h a by simp
      qed
      have hn: "?h \<le> ?n"
      proof -
        have "?hop \<le> ?c + ?n" using nlt by simp
        moreover have "?c + ?n = ?hop * ((?c + ?n) div ?hop) + ?h" by simp
        moreover have "1 \<le> (?c + ?n) div ?hop"
          using nlt hop by (simp add: div_greater_zero_iff Suc_le_eq)
        ultimately have "?hop + ?h \<le> ?c + ?n"
          by (metis add_le_mono1 mult.right_neutral mult_le_mono2)
        then show ?thesis using c by simp
      qed
      have m: "Suc ?n - k = ?m" using kS by simp
      have tk: "take ?m (xs @ [x]) = take ?m xs" by simp
      have p3: "pendingSnapshot cfg ?s'
                  = Some (drop (Suc ?n - k) (?R @ take (Suc ?n - k) (xs @ [x])))"
        unfolding m tk pend by (rule after [OF nlt])
      from ge p1 p2 p3 show ?thesis by presburger
    qed
  qed
  have len: "length (xs @ [x]) = Suc ?n" by simp
  have run: "pushSamples cfg sa (xs @ [x]) (Suc ?n) = ?s'"
    by (simp add: pushSamples_def)
  show ?case
    unfolding len Let_def run k_def [symmetric]
    using ok' ring' rest by blast
qed

lemma small_fftSize: "fftSize smallConfig = 4"
  by (simp add: fftSize_def smallConfig_def)

lemma small_new:
  "newSpectrumAnalyzer smallConfig =
     \<lparr>circularBuffer = [Fin 0, Fin 0, Fin 0, Fin 0], fftData = [Fin 0, Fin 0, Fin 0, Fin 0, Fin 0, Fin 0, Fin 0, Fin 0],
      renderBuffer = [Fin 0, Fin 0, Fin 0, Fin 0, Fin 0, Fin 0, Fin 0, Fin 0],
      writePos = 0, hopCounter = 0, newFFTDataAvailable = False\<rparr>"
  by (simp add: newSpectrumAnalyzer_def small_fftSize eval_nat_numeral)

lemma ringContents_small_new:
  "ringContents smallConfig (newSpectrumAnalyzer smallConfig) = [Fin 0, Fin 0, Fin 0, Fin 0]"
  by (simp add: ringContents_mod small_fftSize small_new upt_conv_Cons)

text \<open>
  Two runs from a fresh analyzer: three samples through the small window, where the
  second sample triggers a capture, and one sample through the plugin's own window of
  4096 with a hop of 512, where none does.
\<close>

theorem pushSamples_ring_and_snapshot_witness:
  "analyzerOk smallConfig (newSpectrumAnalyzer smallConfig) \<and>
   ringContents smallConfig
     (pushSamples smallConfig (newSpectrumAnalyzer smallConfig) [Fin 1, Fin 2, Fin 3] 3) = [Fin 0, Fin 1, Fin 2, Fin 3] \<and>
   hopCounter (pushSamples smallConfig (newSpectrumAnalyzer smallConfig) [Fin 1, Fin 2, Fin 3] 3) = 1 \<and>
   pendingSnapshot smallConfig
     (pushSamples smallConfig (newSpectrumAnalyzer smallConfig) [Fin 1, Fin 2, Fin 3] 3) = Some [Fin 0, Fin 0, Fin 1, Fin 2] \<and>
   circularBuffer (pushSamples smallConfig (newSpectrumAnalyzer smallConfig) [Fin 1] 1)
     = [Fin 1, Fin 0, Fin 0, Fin 0] \<and>
   analyzerOk analyzerConfig (newSpectrumAnalyzer analyzerConfig) \<and>
   hopCounter (pushSamples analyzerConfig (newSpectrumAnalyzer analyzerConfig) [Fin (1 / 2)] 1) = 1 \<and>
   pendingSnapshot analyzerConfig
     (pushSamples analyzerConfig (newSpectrumAnalyzer analyzerConfig) [Fin (1 / 2)] 1) = None"
proof -
  have ok: "analyzerOk smallConfig (newSpectrumAnalyzer smallConfig)"
    by (rule newSpectrumAnalyzer_ok) (simp add: smallConfig_def)
  have hop: "hopSize smallConfig = 2" and c: "hopCounter (newSpectrumAnalyzer smallConfig) = 0"
    by (simp_all add: smallConfig_def newSpectrumAnalyzer_def)
  have one: "circularBuffer (pushSamples smallConfig (newSpectrumAnalyzer smallConfig) [Fin 1] 1)
     = [Fin 1, Fin 0, Fin 0, Fin 0]"
    by (simp add: pushSamples_def pushSample_def small_new hop Let_def)
  have len: "length [Fin 1, Fin 2, Fin 3] = 3" by simp
  note run = pushSamples_ring_and_snapshot [OF ok, of "[Fin 1, Fin 2, Fin 3]", unfolded Let_def len hop c]
  have ok': "analyzerOk analyzerConfig (newSpectrumAnalyzer analyzerConfig)"
    by (rule newSpectrumAnalyzer_ok) (simp add: analyzerConfig_def)
  have hop': "hopSize analyzerConfig = 512"
    and c': "hopCounter (newSpectrumAnalyzer analyzerConfig) = 0"
    and flag': "\<not> newFFTDataAvailable (newSpectrumAnalyzer analyzerConfig)"
    by (simp_all add: analyzerConfig_def newSpectrumAnalyzer_def)
  have len': "length [Fin (1 / 2)] = 1" by simp
  note run' = pushSamples_ring_and_snapshot
                [OF ok', of "[Fin (1 / 2)]", unfolded Let_def len' hop' c']
  from run' flag'
  have plugin:
    "hopCounter (pushSamples analyzerConfig (newSpectrumAnalyzer analyzerConfig) [Fin (1 / 2)] 1) = 1 \<and>
     pendingSnapshot analyzerConfig
       (pushSamples analyzerConfig (newSpectrumAnalyzer analyzerConfig) [Fin (1 / 2)] 1) = None"
    by (simp add: pendingSnapshot_def)
  from run ok one ok' plugin show ?thesis
    by (simp add: ringContents_small_new)
qed

section \<open>Properties of the processor\<close>

subsection \<open>What one band of the loop touches\<close>

lemma updateBandParams_activeBandCount:
  "updateBandParams J P i = Inr P1 \<Longrightarrow> activeBandCount P1 = activeBandCount P"
  by (auto simp: updateBandParams_def split: sum.splits)

lemma processBand_activeBandCount:
  "processBand J i st = Inr st' \<Longrightarrow> activeBandCount (fst st') = activeBandCount (fst st)"
  by (auto simp: processBand_def split: sum.splits dest: updateBandParams_activeBandCount)

lemma updateBandParams_frame:
  assumes "updateBandParams J P i = Inr P1"
  shows "length (bands P1) = length (bands P)"
    and "j \<noteq> nat i \<Longrightarrow> bands P1 ! j = bands P ! j"
  using assms by (auto simp: updateBandParams_def split: sum.splits)

lemma processBand_frame:
  assumes "processBand J i st = Inr st'"
  shows "length (bands (fst st')) = length (bands (fst st))"
    and "j \<noteq> nat i \<Longrightarrow> bands (fst st') ! j = bands (fst st) ! j"
  using assms
  by (auto simp: processBand_def split: sum.splits prod.splits dest: updateBandParams_frame)

lemma cascade_frame:
  assumes "cascade J is st = Inr st'"
  shows "length (bands (fst st')) = length (bands (fst st)) \<and>
         (\<forall>j. j \<notin> nat ` set is \<longrightarrow> bands (fst st') ! j = bands (fst st) ! j)"
  using assms
proof (induction "is" arbitrary: st)
  case Nil
  then show ?case by simp
next
  case (Cons i "is")
  from Cons.prems obtain st1 where
    one: "processBand J i st = Inr st1" and more: "cascade J is st1 = Inr st'"
    by (auto split: sum.splits)
  from Cons.IH [OF more] processBand_frame [OF one]
  show ?case by auto
qed

lemma processBands_cascade:
  "processBands J st i = cascade J [i..activeBandCount (fst st) - 1] st"
proof (induction J st i rule: processBands.induct)
  case (1 J st i)
  show ?case
  proof (cases "i < activeBandCount (fst st)")
    case True
    then have up: "[i..activeBandCount (fst st) - 1] = i # [i + 1..activeBandCount (fst st) - 1]"
      by (simp add: upto_rec1)
    show ?thesis
    proof (cases "processBand J i st")
      case (Inl e)
      with True up show ?thesis by (simp add: processBands.simps [of J st i])
    next
      case (Inr st1)
      have "processBands J st1 (i + 1) = cascade J [i + 1..activeBandCount (fst st1) - 1] st1"
        using "1.IH" [OF True Inr] .
      with True up Inr processBand_activeBandCount [OF Inr] show ?thesis
        by (simp add: processBands.simps [of J st i])
    qed
  next
    case False
    then show ?thesis by (simp add: processBands.simps [of J st i])
  qed
qed

subsection \<open>Evaluating the sample processor\<close>

lemma readBandParams_sample: "readBandParams sampleApvts i = notchParams\<lparr>dynamicOn := False\<rparr>"
  by (simp add: readBandParams_def sampleApvts_def notchParams_def defaultBandParams_def
      filterTypeOfInt_def truncToInt_def)

lemma notchBand_first_run:
  "process modelJuce (notchBand False) threeSamples
     = Inr ((notchBand False)\<lparr>filterMem := [(Fin (1 / 4), Fin 0)]\<rparr>,
            \<lparr>numSamples = 3, channels = [[Fin (1 / 2), Fin (1 / 4), Fin (1 / 2)]]\<rparr>)"
  by (simp add: process_def notchBand_def notchParams_def defaultBandParams_def modelJuce_def
      threeSamples_def Let_def float_ops float_of_small)

lemma notchBand_second_run:
  "process modelJuce (notchBand False)
     \<lparr>numSamples = 3, channels = [[Fin (1 / 2), Fin (1 / 4), Fin (1 / 2)]]\<rparr>
     = Inr ((notchBand False)\<lparr>filterMem := [(Fin (1 / 8), Fin (1 / 4))]\<rparr>,
            \<lparr>numSamples = 3, channels = [[Fin (1 / 4), Fin (1 / 8), Fin (1 / 2)]]\<rparr>)"
  by (simp add: process_def notchBand_def notchParams_def defaultBandParams_def modelJuce_def
      Let_def float_ops float_of_small)

lemma sample_processBand:
  assumes "apvts P = sampleApvts" and "0 \<le> i" and "nat i < length (bands P)"
    and "bands P ! nat i = quietBand"
    and "process modelJuce (notchBand False) buffer = Inr (band', out)"
  shows "processBand modelJuce i (P, buffer)
           = Inr (P\<lparr>bands := (bands P)[nat i := band']\<rparr>, out)"
  using assms
  by (simp add: processBand_def updateBandParams_def bandAt_def readBandParams_sample
      notchBand_updateParams)

lemma sample_clear: "clearUnusedOutputs sampleProcessor threeSamples = threeSamples"
  by (simp add: clearUnusedOutputs_def sampleProcessor_def)

lemma sample_cascade:
  "cascade modelJuce [0, 1]
     (sampleProcessor\<lparr>preSpectrum := pre\<rparr>, threeSamples)
   = Inr (sampleProcessor
            \<lparr>preSpectrum := pre,
             bands := [(notchBand False)\<lparr>filterMem := [(Fin (1 / 4), Fin 0)]\<rparr>,
                       (notchBand False)\<lparr>filterMem := [(Fin (1 / 8), Fin (1 / 4))]\<rparr>,
                       quietBand, quietBand, quietBand, quietBand, quietBand, quietBand]\<rparr>,
          \<lparr>numSamples = 3, channels = [[Fin (1 / 4), Fin (1 / 8), Fin (1 / 2)]]\<rparr>)"
  by (simp add: sample_processBand [OF _ _ _ _ notchBand_first_run]
      sample_processBand [OF _ _ _ _ notchBand_second_run] sampleProcessor_def)

subsection \<open>The cascade\<close>

text \<open>
  Claim C2. For every block, the band loop of \<open>processBlock\<close> is the cascade over the
  indices \<open>0, \<dots>, activeBandCount - 1\<close> in ascending order: each band is updated and
  run on the buffer that the band before it left, and the block's output is the last
  band's output. The bands with an index of \<open>activeBandCount\<close> or more are not applied:
  when the block returns they are as they were.
\<close>

theorem processBlock_cascade:
  "(let b1 = clearUnusedOutputs P buffer;
        P1 = P\<lparr>preSpectrum :=
                 pushSamples analyzerConfig (preSpectrum P) (monoMix b1) (numSamples b1)\<rparr>
    in processBlock J P buffer =
         (case cascade J [0..activeBandCount P - 1] (P1, b1) of
            Inl e \<Rightarrow> Inl e
          | Inr (P2, b2) \<Rightarrow>
              Inr (P2\<lparr>postSpectrum :=
                        pushSamples analyzerConfig (postSpectrum P2) (monoMix b2) (numSamples b2)\<rparr>,
                   b2))) \<and>
   (\<forall>P' out. processBlock J P buffer = Inr (P', out) \<longrightarrow>
      length (bands P') = length (bands P) \<and>
      (\<forall>j. nat (activeBandCount P) \<le> j \<longrightarrow> bands P' ! j = bands P ! j))"
proof -
  let ?b1 = "clearUnusedOutputs P buffer"
  let ?P1 = "P\<lparr>preSpectrum :=
                 pushSamples analyzerConfig (preSpectrum P) (monoMix ?b1) (numSamples ?b1)\<rparr>"
  let ?is = "[0..activeBandCount P - 1]"
  have loop: "processBands J (?P1, ?b1) 0 = cascade J ?is (?P1, ?b1)"
    using processBands_cascade [of J "(?P1, ?b1)" 0] by simp
  have eq: "processBlock J P buffer =
         (case cascade J ?is (?P1, ?b1) of
            Inl e \<Rightarrow> Inl e
          | Inr (P2, b2) \<Rightarrow>
              Inr (P2\<lparr>postSpectrum :=
                        pushSamples analyzerConfig (postSpectrum P2) (monoMix b2) (numSamples b2)\<rparr>,
                   b2))"
    by (simp add: processBlock_def Let_def loop)
  have frame: "length (bands P') = length (bands P) \<and>
      (\<forall>j. nat (activeBandCount P) \<le> j \<longrightarrow> bands P' ! j = bands P ! j)"
    if run: "processBlock J P buffer = Inr (P', out)" for P' out
  proof -
    from run eq obtain P2 where
      c: "cascade J ?is (?P1, ?b1) = Inr (P2, out)" and
      P': "P' = P2\<lparr>postSpectrum :=
                     pushSamples analyzerConfig (postSpectrum P2) (monoMix out) (numSamples out)\<rparr>"
      by (auto split: sum.splits prod.splits)
    have "j \<notin> nat ` set ?is" if "nat (activeBandCount P) \<le> j" for j
      using that by auto
    with cascade_frame [OF c] show ?thesis by (simp add: P')
  qed
  show ?thesis
    using eq frame unfolding Let_def by blast
qed

theorem processBlock_cascade_witness:
  "\<exists>P'. processBlock modelJuce sampleProcessor threeSamples
           = Inr (P', \<lparr>numSamples = 3, channels = [[Fin (1 / 4), Fin (1 / 8), Fin (1 / 2)]]\<rparr>) \<and>
         length (bands P') = 8 \<and>
         bands P' ! 0 = (notchBand False)\<lparr>filterMem := [(Fin (1 / 4), Fin 0)]\<rparr> \<and>
         bands P' ! 1 = (notchBand False)\<lparr>filterMem := [(Fin (1 / 8), Fin (1 / 4))]\<rparr> \<and>
         bands P' ! 2 = bands sampleProcessor ! 2 \<and> bands P' ! 7 = bands sampleProcessor ! 7"
proof -
  have up: "[0..activeBandCount sampleProcessor - 1] = [0, 1]"
    by (simp add: sampleProcessor_def upto_rec1)
  note run = processBlock_cascade [of sampleProcessor threeSamples modelJuce,
      unfolded Let_def up sample_clear sample_cascade]
  from run
  have "\<exists>P'. processBlock modelJuce sampleProcessor threeSamples
           = Inr (P', \<lparr>numSamples = 3, channels = [[Fin (1 / 4), Fin (1 / 8), Fin (1 / 2)]]\<rparr>) \<and>
         bands P' = [(notchBand False)\<lparr>filterMem := [(Fin (1 / 4), Fin 0)]\<rparr>,
                       (notchBand False)\<lparr>filterMem := [(Fin (1 / 8), Fin (1 / 4))]\<rparr>,
                       quietBand, quietBand, quietBand, quietBand, quietBand, quietBand]"
    by simp
  then show ?thesis
    by (auto simp: sampleProcessor_def)
qed

subsection \<open>The gain-reduction accessor\<close>

text \<open>
  Claim C10. For a band index below 0 or at least \<open>numBands\<close>,
  \<open>getBandGainReduction\<close> returns 0 whatever the processor holds, so without reading
  a band; and with the band array at its size of \<open>numBands\<close> it returns a value, never
  an out-of-range access, for every integer index.
\<close>

theorem getBandGainReduction_total:
  "(bandIndex < 0 \<or> numBands \<le> bandIndex \<longrightarrow> getBandGainReduction P bandIndex = Inr (Fin 0)) \<and>
   (int (length (bands P)) = numBands \<longrightarrow> (\<exists>v. getBandGainReduction P bandIndex = Inr v))"
  by (auto simp: getBandGainReduction_def bandAt_def)

theorem getBandGainReduction_total_witness:
  "((-1::int) < 0 \<or> numBands \<le> -1) \<and> getBandGainReduction sampleProcessor (-1) = Inr (Fin 0) \<and>
   getBandGainReduction sampleProcessor 8 = Inr (Fin 0) \<and>
   int (length (bands sampleProcessor)) = numBands \<and>
   getBandGainReduction sampleProcessor 3 = Inr (Fin 0)"
  using getBandGainReduction_total [of "-1" sampleProcessor]
    getBandGainReduction_total [of 8 sampleProcessor]
    getBandGainReduction_total [of 3 sampleProcessor]
  by (simp add: numBands_def sampleProcessor_def getBandGainReduction_def bandAt_def
      getGainReductionDB_def quietBand_def newDynamicEQBand_def)

section \<open>Properties of the curve cache\<close>







end
